theory Spec2Isabelle
  imports Complex_Main
begin

section \<open>The CSV visualization dashboard\<close>

text \<open>
  A shallow embedding of \<^verbatim>\<open>src/utils/CSVVisualizationDashboard.tsx\<close>: the sampler, the
  column classification, the default axis selection, the chart data synthesis of
  \<^verbatim>\<open>renderPlotlyChart\<close> and the view state of the component.
\<close>

subsection \<open>Sampler\<close>

text \<open>
  \<^verbatim>\<open>
  const sampleData = (data: any[], maxPoints = 2000) => {
    if (data.length <= maxPoints) return data
    const step = Math.floor(data.length / maxPoints)
    const sampledData = []
    for (let i = 0; i < data.length; i += step) {
      sampledData.push(data[i])
    }
    return sampledData.slice(0, maxPoints)
  }
  \<close>
  The loop is kept as a loop: it returns \<open>None\<close> where the source would not terminate (a step
  of zero). The point bound is a natural number; for \<open>maxPoints = 0\<close> the source divides by
  zero, the step is \<open>Infinity\<close>, and the loop pushes the first record only.
\<close>

partial_function (option) sampleLoop :: "'a list \<Rightarrow> nat \<Rightarrow> nat \<Rightarrow> 'a list \<Rightarrow> 'a list option" where
  "sampleLoop data step i sampledData =
     (if i < length data then sampleLoop data step (i + step) (sampledData @ [data ! i])
      else Some sampledData)"

declare sampleLoop.simps [code]

definition sampleData :: "'a list \<Rightarrow> nat \<Rightarrow> 'a list option" where
  "sampleData data maxPoints =
     (if length data \<le> maxPoints then Some data
      else if maxPoints = 0 then Some (take maxPoints [data ! 0])
      else map_option (take maxPoints) (sampleLoop data (length data div maxPoints) 0 []))"

definition MAX_POINTS :: nat where
  "MAX_POINTS = 2000"

text \<open>The number of loop iterations from index \<open>i\<close>: the indices \<open>i, i + step, \<dots>\<close> below \<open>n\<close>.\<close>

definition strideCount :: "nat \<Rightarrow> nat \<Rightarrow> nat \<Rightarrow> nat" where
  "strideCount n i step = (n - i + step - 1) div step"

subsection \<open>Values and the coercions of the JavaScript runtime\<close>

text \<open>
  A JavaScript number is a finite value, an infinity or \<open>NaN\<close>. A finite double is the real
  number it stands for; the sign of zero is not modelled. A cell of a parsed record is a
  number, a text or \<open>null\<close>; \<open>undefined\<close> is what reading an absent field gives.
\<close>

datatype jsnum = Fin real | PosInf | NegInf | NaN

datatype jsval = Num jsnum | Str string | Null | Undefined

text \<open>
  A record is an object: its fields in the order in which \<^verbatim>\<open>Object.keys\<close> enumerates them.
  Members inherited from \<^verbatim>\<open>Object.prototype\<close> are not modelled for records.
\<close>

type_synonym row = "(string \<times> jsval) list"

text \<open>
  The readings of a text as a number (\<^verbatim>\<open>Number(s)\<close>, \<^verbatim>\<open>parseFloat(s)\<close>), the printing of a
  number that is not an integer below \<open>10\<^sup>2\<^sup>1\<close>, and the rounding of the exact result of an
  arithmetic operation to a double (or to an infinity) belong to the JavaScript runtime, not to
  this repository. Every operation that uses one of them takes them as a parameter.
\<close>

record jsrt =
  numberOfString :: "string \<Rightarrow> jsnum"
  parseFloatOfString :: "string \<Rightarrow> jsnum"
  stringOfFraction :: "real \<Rightarrow> string"
  roundDouble :: "real \<Rightarrow> jsnum"

fun isFinite :: "jsnum \<Rightarrow> bool" where
  "isFinite (Fin r) = True"
| "isFinite n = False"

definition jsIsNaN :: "jsnum \<Rightarrow> bool" where
  "jsIsNaN n = (n = NaN)"

text \<open>A number is truthy unless it is zero or \<open>NaN\<close>.\<close>

definition jsTruthy :: "jsnum \<Rightarrow> bool" where
  "jsTruthy n = (n \<noteq> NaN \<and> n \<noteq> Fin 0)"

fun jsAdd :: "jsnum \<Rightarrow> jsnum \<Rightarrow> jsnum" where
  "jsAdd (Fin a) (Fin b) = Fin (a + b)"
| "jsAdd NaN n = NaN"
| "jsAdd n NaN = NaN"
| "jsAdd PosInf NegInf = NaN"
| "jsAdd NegInf PosInf = NaN"
| "jsAdd PosInf n = PosInf"
| "jsAdd n PosInf = PosInf"
| "jsAdd NegInf n = NegInf"
| "jsAdd n NegInf = NegInf"

fun jsNeg :: "jsnum \<Rightarrow> jsnum" where
  "jsNeg (Fin a) = Fin (- a)"
| "jsNeg PosInf = NegInf"
| "jsNeg NegInf = PosInf"
| "jsNeg NaN = NaN"

definition jsSub :: "jsnum \<Rightarrow> jsnum \<Rightarrow> jsnum" where
  "jsSub a b = jsAdd a (jsNeg b)"

fun jsLess :: "jsnum \<Rightarrow> jsnum \<Rightarrow> bool" where
  "jsLess (Fin a) (Fin b) = (a < b)"
| "jsLess NaN n = False"
| "jsLess n NaN = False"
| "jsLess NegInf NegInf = False"
| "jsLess NegInf n = True"
| "jsLess n NegInf = False"
| "jsLess PosInf n = False"
| "jsLess n PosInf = True"

text \<open>Division of a number by the length of an array.\<close>

fun jsDivCount :: "jsnum \<Rightarrow> nat \<Rightarrow> jsnum" where
  "jsDivCount (Fin a) n =
     (if n = 0 then (if a = 0 then NaN else if 0 < a then PosInf else NegInf)
      else Fin (a / real n))"
| "jsDivCount PosInf n = PosInf"
| "jsDivCount NegInf n = NegInf"
| "jsDivCount NaN n = NaN"

text \<open>
  The arithmetic of the map layout, as the runtime computes it: the exact result, rounded.
  (\<open>jsAdd\<close> itself, which the sums of the pie use, does not round.)
\<close>

fun roundTo :: "jsrt \<Rightarrow> jsnum \<Rightarrow> jsnum" where
  "roundTo rt (Fin r) = roundDouble rt r"
| "roundTo rt n = n"

definition flAdd :: "jsrt \<Rightarrow> jsnum \<Rightarrow> jsnum \<Rightarrow> jsnum" where
  "flAdd rt a b = roundTo rt (jsAdd a b)"

definition flSub :: "jsrt \<Rightarrow> jsnum \<Rightarrow> jsnum \<Rightarrow> jsnum" where
  "flSub rt a b = roundTo rt (jsSub a b)"

definition flDivCount :: "jsrt \<Rightarrow> jsnum \<Rightarrow> nat \<Rightarrow> jsnum" where
  "flDivCount rt a n = roundTo rt (jsDivCount a n)"

text \<open>\<^verbatim>\<open>Math.max\<close> and \<^verbatim>\<open>Math.min\<close> of numbers: \<open>NaN\<close> if an argument is.\<close>

definition jsMax2 :: "jsnum \<Rightarrow> jsnum \<Rightarrow> jsnum" where
  "jsMax2 a b = (if a = NaN \<or> b = NaN then NaN else if jsLess a b then b else a)"

definition jsMin2 :: "jsnum \<Rightarrow> jsnum \<Rightarrow> jsnum" where
  "jsMin2 a b = (if a = NaN \<or> b = NaN then NaN else if jsLess b a then b else a)"

definition mathMax :: "jsnum list \<Rightarrow> jsnum" where
  "mathMax ns = foldl jsMax2 NegInf ns"

definition mathMin :: "jsnum list \<Rightarrow> jsnum" where
  "mathMin ns = foldl jsMin2 PosInf ns"

subsubsection \<open>Decimal numerals\<close>

definition digitChar :: "nat \<Rightarrow> char" where
  "digitChar d = ''0123456789'' ! d"

fun natToString :: "nat \<Rightarrow> string" where
  "natToString n = (if n < 10 then [digitChar n] else natToString (n div 10) @ [digitChar (n mod 10)])"

declare natToString.simps [simp del]

definition intToString :: "int \<Rightarrow> string" where
  "intToString i = (if i < 0 then CHR ''-'' # natToString (nat (- i)) else natToString (nat i))"

definition isDigit :: "char \<Rightarrow> bool" where
  "isDigit c = (c \<in> set ''0123456789'')"

definition natOfString :: "string \<Rightarrow> nat" where
  "natOfString s = foldl (\<lambda>a c. 10 * a + (of_char c - 48)) 0 s"

subsubsection \<open>\<^verbatim>\<open>Number(v)\<close> and \<^verbatim>\<open>String(v)\<close>\<close>

fun toNumber :: "jsrt \<Rightarrow> jsval \<Rightarrow> jsnum" where
  "toNumber rt (Num n) = n"
| "toNumber rt (Str s) = numberOfString rt s"
| "toNumber rt Null = Fin 0"
| "toNumber rt Undefined = NaN"

fun numberToString :: "jsrt \<Rightarrow> jsnum \<Rightarrow> string" where
  "numberToString rt NaN = ''NaN''"
| "numberToString rt PosInf = ''Infinity''"
| "numberToString rt NegInf = ''-Infinity''"
| "numberToString rt (Fin r) =
     (if r = of_int \<lfloor>r\<rfloor> \<and> \<bar>r\<bar> < 10 ^ 21 then intToString \<lfloor>r\<rfloor> else stringOfFraction rt r)"

fun toString :: "jsrt \<Rightarrow> jsval \<Rightarrow> string" where
  "toString rt (Num n) = numberToString rt n"
| "toString rt (Str s) = s"
| "toString rt Null = ''null''"
| "toString rt Undefined = ''undefined''"

text \<open>
  The operator \<^verbatim>\<open>+\<close>: concatenation of the string forms when an operand is a text, addition
  of the numeric forms otherwise.
\<close>

fun jsPlus :: "jsrt \<Rightarrow> jsval \<Rightarrow> jsval \<Rightarrow> jsval" where
  "jsPlus rt (Str s) b = Str (s @ toString rt b)"
| "jsPlus rt a (Str t) = Str (toString rt a @ t)"
| "jsPlus rt a b = Num (flAdd rt (toNumber rt a) (toNumber rt b))"

subsubsection \<open>Objects\<close>

text \<open>\<^verbatim>\<open>d[k]\<close>: the field, or \<open>undefined\<close>.\<close>

definition getField :: "('k \<times> jsval) list \<Rightarrow> 'k \<Rightarrow> jsval" where
  "getField d k = (case map_of d k of Some v \<Rightarrow> v | None \<Rightarrow> Undefined)"

text \<open>\<^verbatim>\<open>d[k] = v\<close>: an existing field keeps its place, a new one is enumerated last.\<close>

fun setField :: "'k \<Rightarrow> 'v \<Rightarrow> ('k \<times> 'v) list \<Rightarrow> ('k \<times> 'v) list" where
  "setField k v [] = [(k, v)]"
| "setField k v (p # d) = (if fst p = k then (k, v) # d else p # setField k v d)"

text \<open>
  A property name is an array index when it is the canonical numeral of an integer below
  \<open>2\<^sup>3\<^sup>2 - 1\<close>. An object built by assignments enumerates its array indices first, in ascending
  numeric order, and its other names after them, in the order of their creation.
\<close>

definition isArrayIndex :: "string \<Rightarrow> bool" where
  "isArrayIndex s =
     (s \<noteq> [] \<and> list_all isDigit s \<and> (s = ''0'' \<or> hd s \<noteq> CHR ''0'') \<and> natOfString s < 4294967295)"

definition objectEntries :: "(string \<times> 'v) list \<Rightarrow> (string \<times> 'v) list" where
  "objectEntries obj =
     sort_key (\<lambda>p. natOfString (fst p)) (filter (\<lambda>p. isArrayIndex (fst p)) obj)
     @ filter (\<lambda>p. \<not> isArrayIndex (fst p)) obj"

subsection \<open>Chart data and column classification\<close>

text \<open>
  \<^verbatim>\<open>
  const chartData = useMemo(() => {
    return csvData.map((row, index) => ({
      ...row,
      index: index + 1,
    }))
  }, [csvData])
  \<close>
\<close>

definition chartData :: "row list \<Rightarrow> row list" where
  "chartData csvData =
     map (\<lambda>(index, row). setField ''index'' (Num (Fin (real (index + 1)))) row) (enumerate 0 csvData)"

text \<open>
  \<^verbatim>\<open>typeof value === "number" || (!isNaN(Number.parseFloat(value)) && isFinite(value))\<close>.
  \<^verbatim>\<open>parseFloat\<close> reads the string form of its argument, which for \<open>null\<close> and \<open>undefined\<close> is
  not a numeral.
\<close>

fun isNumeric :: "jsrt \<Rightarrow> jsval \<Rightarrow> bool" where
  "isNumeric rt (Num n) = True"
| "isNumeric rt (Str s) = (\<not> jsIsNaN (parseFloatOfString rt s) \<and> isFinite (numberOfString rt s))"
| "isNumeric rt Null = False"
| "isNumeric rt Undefined = False"

text \<open>
  \<^verbatim>\<open>
  const numericColumns = useMemo(() => {
    if (csvData.length === 0) return []
    return Object.keys(csvData[0] || {}).filter((key) => {
      const value = csvData[0][key]
      return typeof value === "number" || (!isNaN(Number.parseFloat(value)) && isFinite(value))
    })
  }, [csvData])
  \<close>
\<close>

definition numericKeys :: "jsrt \<Rightarrow> row \<Rightarrow> string list" where
  "numericKeys rt first = filter (\<lambda>key. isNumeric rt (getField first key)) (map fst first)"

definition numericColumns :: "jsrt \<Rightarrow> row list \<Rightarrow> string list" where
  "numericColumns rt csvData = (case csvData of [] \<Rightarrow> [] | first # rest \<Rightarrow> numericKeys rt first)"

text \<open>\<^verbatim>\<open>toLowerCase\<close> on the letters of ASCII, and \<^verbatim>\<open>includes\<close>.\<close>

definition lowerChar :: "char \<Rightarrow> char" where
  "lowerChar c =
     (case map_of (zip ''ABCDEFGHIJKLMNOPQRSTUVWXYZ'' ''abcdefghijklmnopqrstuvwxyz'') c of
        Some l \<Rightarrow> l
      | None \<Rightarrow> c)"

definition toLowerCase :: "string \<Rightarrow> string" where
  "toLowerCase s = map lowerChar s"

fun includesStr :: "string \<Rightarrow> string \<Rightarrow> bool" where
  "includesStr [] t = (t = [])"
| "includesStr (c # s) t = (take (length t) (c # s) = t \<or> includesStr s t)"

text \<open>
  \<^verbatim>\<open>
  const geoColumns = useMemo(() => {
    if (csvData.length === 0) return { lat: null, lon: null }
    const columns = Object.keys(csvData[0] || {})
    const latCol = columns.find(
      (col) => col.toLowerCase().includes("lat") || col.toLowerCase().includes("latitude")
               || col.toLowerCase() === "y",
    )
    const lonCol = columns.find(
      (col) =>
        col.toLowerCase().includes("lon") ||
        col.toLowerCase().includes("lng") ||
        col.toLowerCase().includes("longitude") ||
        col.toLowerCase() === "x",
    )
    return { lat: latCol || null, lon: lonCol || null }
  }, [csvData])
  \<close>
\<close>

record geo_columns =
  lat :: "string option"
  lon :: "string option"

definition isLatName :: "string \<Rightarrow> bool" where
  "isLatName col =
     (includesStr (toLowerCase col) ''lat'' \<or> includesStr (toLowerCase col) ''latitude''
      \<or> toLowerCase col = ''y'')"

definition isLonName :: "string \<Rightarrow> bool" where
  "isLonName col =
     (includesStr (toLowerCase col) ''lon'' \<or> includesStr (toLowerCase col) ''lng''
      \<or> includesStr (toLowerCase col) ''longitude'' \<or> toLowerCase col = ''x'')"

text \<open>\<^verbatim>\<open>col || null\<close>: a missing or empty name is \<open>null\<close>.\<close>

definition orNull :: "string option \<Rightarrow> string option" where
  "orNull col = (case col of None \<Rightarrow> None | Some c \<Rightarrow> if c = [] then None else Some c)"

definition geoColumns :: "row list \<Rightarrow> geo_columns" where
  "geoColumns csvData =
     (case csvData of
        [] \<Rightarrow> \<lparr>lat = None, lon = None\<rparr>
      | first # rest \<Rightarrow>
          \<lparr>lat = orNull (find isLatName (map fst first)),
           lon = orNull (find isLonName (map fst first))\<rparr>)"

text \<open>Every reader of \<^verbatim>\<open>geoColumns\<close> tests \<^verbatim>\<open>geoColumns.lat && geoColumns.lon\<close>.\<close>

definition geoAvailable :: "geo_columns \<Rightarrow> bool" where
  "geoAvailable g = (lat g \<noteq> None \<and> lon g \<noteq> None)"

subsection \<open>Chart synthesis\<close>

text \<open>
  The traces and the layout that \<^verbatim>\<open>renderPlotlyChart\<close> hands to \<^verbatim>\<open>Plotly.newPlot\<close>, without
  the fields that only style the chart (colours, fonts, margins, hover templates and the
  values taken from \<^verbatim>\<open>config\<close>).
\<close>

text \<open>
  \<^verbatim>\<open>
  const xyValid = chartData.map((d) => [d[xAxis], Number(d[yAxis])] as const)
                           .filter(([, y]) => Number.isFinite(y))
  \<close>
\<close>

definition xyValid :: "jsrt \<Rightarrow> row list \<Rightarrow> string \<Rightarrow> string \<Rightarrow> (jsval \<times> jsnum) list" where
  "xyValid rt cd xAxis yAxis =
     filter (\<lambda>(x, y). isFinite y) (map (\<lambda>d. (getField d xAxis, toNumber rt (getField d yAxis))) cd)"

text \<open>
  \<^verbatim>\<open>
  const pieData = chartData.reduce(
    (acc, d) => {
      const label = String(d[xAxis])
      const value = Number(d[yAxis]) || 0
      if (acc[label]) {
        acc[label] += value
      } else {
        acc[label] = value
      }
      return acc
    },
    {} as Record<string, number>,
  )
  const pieEntries = Object.entries(pieData).slice(0, 8)
  \<close>
  The accumulator is an object literal, so \<^verbatim>\<open>acc[label]\<close> also finds what \<^verbatim>\<open>Object.prototype\<close>
  provides. Appending a number to an inherited function gives a text, whose content is not
  modelled (\<open>Garbled\<close>); an assignment of a text to \<^verbatim>\<open>__proto__\<close> creates no field.
\<close>

datatype pieval = Tally jsnum | Garbled

definition objectPrototypeNames :: "string list" where
  "objectPrototypeNames =
     [''constructor'', ''hasOwnProperty'', ''isPrototypeOf'', ''propertyIsEnumerable'',
      ''toLocaleString'', ''toString'', ''valueOf'', ''__defineGetter__'', ''__defineSetter__'',
      ''__lookupGetter__'', ''__lookupSetter__'']"

definition orZero :: "jsnum \<Rightarrow> jsnum" where
  "orZero n = (if jsTruthy n then n else Fin 0)"

definition pieStep :: "jsrt \<Rightarrow> string \<Rightarrow> string \<Rightarrow> (string \<times> pieval) list \<Rightarrow> row \<Rightarrow> (string \<times> pieval) list" where
  "pieStep rt xAxis yAxis acc d =
     (let label = toString rt (getField d xAxis);
          value = orZero (toNumber rt (getField d yAxis))
      in case map_of acc label of
           Some (Tally a) \<Rightarrow>
             if jsTruthy a then setField label (Tally (jsAdd a value)) acc
             else setField label (Tally value) acc
         | Some Garbled \<Rightarrow> setField label Garbled acc
         | None \<Rightarrow>
             if label = ''__proto__'' then acc
             else if label \<in> set objectPrototypeNames then setField label Garbled acc
             else setField label (Tally value) acc)"

definition pieData :: "jsrt \<Rightarrow> row list \<Rightarrow> string \<Rightarrow> string \<Rightarrow> (string \<times> pieval) list" where
  "pieData rt cd xAxis yAxis = foldl (pieStep rt xAxis yAxis) [] cd"

definition pieEntries :: "jsrt \<Rightarrow> row list \<Rightarrow> string \<Rightarrow> string \<Rightarrow> (string \<times> pieval) list" where
  "pieEntries rt cd xAxis yAxis = take 8 (objectEntries (pieData rt cd xAxis yAxis))"

text \<open>
  \<^verbatim>\<open>
  const validGeoData = chartData.filter(
    (d) =>
      d[geoColumns.lat!] != null &&
      d[geoColumns.lon!] != null &&
      !isNaN(d[geoColumns.lat!]) &&
      !isNaN(d[geoColumns.lon!]),
  )
  \<close>
\<close>

definition notNullish :: "jsval \<Rightarrow> bool" where
  "notNullish v = (v \<noteq> Null \<and> v \<noteq> Undefined)"

definition validGeoData :: "jsrt \<Rightarrow> row list \<Rightarrow> string \<Rightarrow> string \<Rightarrow> row list" where
  "validGeoData rt cd latCol lonCol =
     filter (\<lambda>d. notNullish (getField d latCol) \<and> notNullish (getField d lonCol)
                \<and> \<not> jsIsNaN (toNumber rt (getField d latCol))
                \<and> \<not> jsIsNaN (toNumber rt (getField d lonCol))) cd"

text \<open>
  \<^verbatim>\<open>
  const centerLat = lats.reduce((a, b) => a + b, 0) / lats.length
  const latRange = Math.max(...lats) - Math.min(...lats)
  const maxRange = Math.max(latRange, lonRange)
  const zoom = maxRange < 1 ? 8 : maxRange < 5 ? 6 : maxRange < 20 ? 4 : maxRange < 50 ? 3 : 2
  \<close>
\<close>

definition center :: "jsrt \<Rightarrow> jsval list \<Rightarrow> jsnum" where
  "center rt vs = flDivCount rt (toNumber rt (foldl (jsPlus rt) (Num (Fin 0)) vs)) (length vs)"

definition valueRange :: "jsrt \<Rightarrow> jsval list \<Rightarrow> jsnum" where
  "valueRange rt vs = flSub rt (mathMax (map (toNumber rt) vs)) (mathMin (map (toNumber rt) vs))"

definition zoomLevel :: "jsnum \<Rightarrow> nat" where
  "zoomLevel maxRange =
     (if jsLess maxRange (Fin 1) then 8
      else if jsLess maxRange (Fin 5) then 6
      else if jsLess maxRange (Fin 20) then 4
      else if jsLess maxRange (Fin 50) then 3
      else 2)"

record mapbox_layout =
  centerLat :: jsnum
  centerLon :: jsnum
  zoom :: nat

record layout =
  xaxisTitle :: "string option"
  yaxisTitle :: "string option"
  polar :: bool
  mapbox :: "mapbox_layout option"

datatype trace =
  XYTrace string "jsval list" "jsnum list"
| PieTrace "pieval list" "string list"
| RadarTrace "jsval list" "string list"
| GeoTrace "jsval list" "jsval list"

text \<open>
  The switch over the plot type. \<open>XYTrace\<close> carries the plot type (which fixes the Plotly
  \<^verbatim>\<open>type\<close>, \<^verbatim>\<open>mode\<close> and \<^verbatim>\<open>fill\<close>), \<^verbatim>\<open>x\<close> and \<^verbatim>\<open>y\<close>; \<open>PieTrace\<close> carries \<^verbatim>\<open>values\<close> and
  \<^verbatim>\<open>labels\<close>; \<open>RadarTrace\<close> carries \<^verbatim>\<open>r\<close> and \<^verbatim>\<open>theta\<close>; \<open>GeoTrace\<close> carries \<^verbatim>\<open>lat\<close> and \<^verbatim>\<open>lon\<close>.
\<close>

definition baseLayout :: "string \<Rightarrow> string \<Rightarrow> string \<Rightarrow> layout" where
  "baseLayout plotType xAxis yAxis =
     (if plotType \<noteq> ''pie'' \<and> plotType \<noteq> ''geograph''
      then \<lparr>xaxisTitle = Some xAxis, yaxisTitle = Some yAxis, polar = False, mapbox = None\<rparr>
      else \<lparr>xaxisTitle = None, yaxisTitle = None, polar = False, mapbox = None\<rparr>)"

definition geoTrace :: "jsrt \<Rightarrow> row list \<Rightarrow> string \<Rightarrow> string \<Rightarrow> trace" where
  "geoTrace rt cd latCol lonCol =
     GeoTrace (map (\<lambda>d. getField d latCol) (validGeoData rt cd latCol lonCol))
              (map (\<lambda>d. getField d lonCol) (validGeoData rt cd latCol lonCol))"

definition geoMapbox :: "jsrt \<Rightarrow> row list \<Rightarrow> string \<Rightarrow> string \<Rightarrow> mapbox_layout" where
  "geoMapbox rt cd latCol lonCol =
     (let lats = map (\<lambda>d. getField d latCol) (validGeoData rt cd latCol lonCol);
          lons = map (\<lambda>d. getField d lonCol) (validGeoData rt cd latCol lonCol);
          maxRange = mathMax [valueRange rt lats, valueRange rt lons]
      in \<lparr>centerLat = center rt lats, centerLon = center rt lons, zoom = zoomLevel maxRange\<rparr>)"

definition renderPlotlyChart ::
    "jsrt \<Rightarrow> string \<Rightarrow> row list \<Rightarrow> string \<Rightarrow> string \<Rightarrow> geo_columns \<Rightarrow> trace list \<times> layout" where
  "renderPlotlyChart rt plotType cd xAxis yAxis geo =
     (let layout = baseLayout plotType xAxis yAxis;
          xy = xyValid rt cd xAxis yAxis
      in if plotType \<in> set [''line'', ''bar'', ''area'', ''scatter'']
         then ([XYTrace plotType (map fst xy) (map snd xy)], layout)
         else if plotType = ''pie''
         then ([PieTrace (map snd (pieEntries rt cd xAxis yAxis))
                         (map fst (pieEntries rt cd xAxis yAxis))], layout)
         else if plotType = ''radar''
         then ([RadarTrace (map (\<lambda>d. getField d yAxis) (take 6 cd))
                           (map (\<lambda>d. toString rt (getField d xAxis)) (take 6 cd))],
               layout\<lparr>polar := True\<rparr>)
         else if plotType = ''geograph''
         then (case (lat geo, lon geo) of
                 (Some latCol, Some lonCol) \<Rightarrow>
                   ([geoTrace rt cd latCol lonCol],
                    layout\<lparr>xaxisTitle := None, yaxisTitle := None,
                           mapbox := Some (geoMapbox rt cd latCol lonCol)\<rparr>)
               | _ \<Rightarrow> ([], layout))
         else ([], layout))"

subsection \<open>Fetching and parsing\<close>

text \<open>
  One run of \<^verbatim>\<open>fetchCSVData\<close> meets one behaviour of the network and of the CSV parser:
  \<^verbatim>\<open>fetch\<close> rejects or gives a response; \<^verbatim>\<open>response.text()\<close> rejects or gives the text;
  \<^verbatim>\<open>Papa.parse\<close> calls \<^verbatim>\<open>complete\<close> with the parsed records and the number of its row-level
  errors (which are only logged), or calls \<^verbatim>\<open>error\<close>. A thrown value is an \<^verbatim>\<open>Error\<close> with its
  message, or something else.
  \<^verbatim>\<open>
  const response = await fetch(csvFile)
  if (!response.ok) {
    throw new Error(`HTTP error! status: ${response.status}`)
  }
  const csvText = await response.text()
  return new Promise<any[]>((resolve, reject) => {
    Papa.parse(csvText, { ...,
      complete: (results) => { ...; resolve(results.data as any[]) },
      error: (error) => { reject(error) },
    })
  })
  \<close>
\<close>

datatype thrown = ErrorObject string | NonError

record response =
  ok :: bool
  status :: nat
  responseText :: "thrown + string"

datatype parse_result = Complete "row list" nat | ParseFailed thrown

record attempt =
  fetched :: "thrown + response"
  parsed :: "string \<Rightarrow> parse_result"

definition fetchCSVData :: "attempt \<Rightarrow> thrown + row list" where
  "fetchCSVData a =
     (case fetched a of
        Inl err \<Rightarrow> Inl err
      | Inr response \<Rightarrow>
          if \<not> ok response
          then Inl (ErrorObject (''HTTP error! status: '' @ natToString (status response)))
          else (case responseText response of
                  Inl err \<Rightarrow> Inl err
                | Inr csvText \<Rightarrow>
                    (case parsed a csvText of
                       Complete rows errors \<Rightarrow> Inr rows
                     | ParseFailed err \<Rightarrow> Inl err)))"

text \<open>\<^verbatim>\<open>err instanceof Error ? err.message : fallback\<close>\<close>

definition errorMessage :: "thrown \<Rightarrow> string \<Rightarrow> string" where
  "errorMessage err fallback = (case err of ErrorObject message \<Rightarrow> message | NonError \<Rightarrow> fallback)"

subsection \<open>The state of the component\<close>

record dashboard =
  plotType :: string
  csvData :: "row list"
  loading :: bool
  error :: "string option"
  xAxis :: string
  yAxis :: string
  isFullscreen :: bool
  showSettings :: bool
  isZoomedIn :: bool

definition initialState :: "string \<Rightarrow> dashboard" where
  "initialState initialPlotType =
     \<lparr>plotType = initialPlotType, csvData = [], loading = True, error = None,
      xAxis = [], yAxis = [], isFullscreen = False, showSettings = False, isZoomedIn = False\<rparr>"

text \<open>
  The effect run on mount.
  \<^verbatim>\<open>
  const data = await fetchCSVData()
  const sampledData = sampleData(data)
  setCsvData(sampledData)
  if (sampledData.length > 0) {
    const numericCols = Object.keys(sampledData[0]).filter(...)
    if (numericCols.length > 0 && !xAxis) {
      setXAxis(numericCols[0])
    }
    if (numericCols.length > 1 && !yAxis) {
      setYAxis(numericCols[1])
    } else if (numericCols.length === 1 && !yAxis) {
      setYAxis(numericCols[0])
    }
  }
  } catch (err) {
    setError(err instanceof Error ? err.message : "Failed to load CSV data")
  } finally {
    setLoading(false)
  }
  \<close>
  \<^verbatim>\<open>fetchCSVData\<close> starts with \<^verbatim>\<open>setLoading(true)\<close> and \<^verbatim>\<open>setError(null)\<close>. Where the sampler does
  not return, the component stays as it is then.
\<close>

definition defaultXAxis :: "string list \<Rightarrow> string \<Rightarrow> string" where
  "defaultXAxis numericCols x = (if length numericCols > 0 \<and> x = [] then numericCols ! 0 else x)"

definition defaultYAxis :: "string list \<Rightarrow> string \<Rightarrow> string" where
  "defaultYAxis numericCols y =
     (if length numericCols > 1 \<and> y = [] then numericCols ! 1
      else if length numericCols = 1 \<and> y = [] then numericCols ! 0
      else y)"

definition loadData :: "jsrt \<Rightarrow> dashboard \<Rightarrow> attempt \<Rightarrow> dashboard" where
  "loadData rt s a =
     (case fetchCSVData a of
        Inr data \<Rightarrow>
          (case sampleData data MAX_POINTS of
             None \<Rightarrow> s\<lparr>loading := True, error := None\<rparr>
           | Some sampledData \<Rightarrow>
               (case sampledData of
                  [] \<Rightarrow> s\<lparr>csvData := sampledData, error := None, loading := False\<rparr>
                | first # rest \<Rightarrow>
                    s\<lparr>csvData := sampledData, error := None, loading := False,
                      xAxis := defaultXAxis (numericKeys rt first) (xAxis s),
                      yAxis := defaultYAxis (numericKeys rt first) (yAxis s)\<rparr>))
      | Inl err \<Rightarrow> s\<lparr>error := Some (errorMessage err ''Failed to load CSV data''), loading := False\<rparr>)"

text \<open>
  \<^verbatim>\<open>
  const handleRefresh = () => {
    setLoading(true)
    fetchCSVData()
      .then((data) => {
        const sampledData = sampleData(data)
        setCsvData(sampledData)
        setError(null)
      })
      .catch((err) => {
        setError(err instanceof Error ? err.message : "Failed to refresh data")
      })
      .finally(() => {
        setLoading(false)
      })
  }
  \<close>
\<close>

definition handleRefresh :: "dashboard \<Rightarrow> attempt \<Rightarrow> dashboard" where
  "handleRefresh s a =
     (case fetchCSVData a of
        Inr data \<Rightarrow>
          (case sampleData data MAX_POINTS of
             None \<Rightarrow> s\<lparr>loading := True, error := None\<rparr>
           | Some sampledData \<Rightarrow> s\<lparr>csvData := sampledData, error := None, loading := False\<rparr>)
      | Inl err \<Rightarrow> s\<lparr>error := Some (errorMessage err ''Failed to refresh data''), loading := False\<rparr>)"

subsection \<open>What the component renders\<close>

text \<open>
  The chain of early returns of the component: \<^verbatim>\<open>if (loading)\<close>, \<^verbatim>\<open>if (error)\<close>,
  \<^verbatim>\<open>if (!csvData || csvData.length === 0)\<close>,
  \<^verbatim>\<open>if (numericColumns.length === 0 && plotType !== "geograph")\<close>, and the dashboard itself.
  A text is truthy unless it is empty.
\<close>

datatype phase = Loading | Error string | Empty | NoNumericData | Ready

definition dataView :: "jsrt \<Rightarrow> dashboard \<Rightarrow> phase" where
  "dataView rt s =
     (if csvData s = [] then Empty
      else if length (numericColumns rt (csvData s)) = 0 \<and> plotType s \<noteq> ''geograph'' then NoNumericData
      else Ready)"

definition view :: "jsrt \<Rightarrow> dashboard \<Rightarrow> phase" where
  "view rt s =
     (if loading s then Loading
      else case error s of
             Some message \<Rightarrow> if message \<noteq> [] then Error message else dataView rt s
           | None \<Rightarrow> dataView rt s)"





subsection \<open>The transitions of the component\<close>

definition CHART_TYPES :: "string list" where
  "CHART_TYPES = [''line'', ''bar'', ''area'', ''scatter'', ''pie'', ''radar'', ''geograph'']"

text \<open>
  What can happen to a mounted component: a click on a refresh button (with the behaviour of
  the network and parser that the fetch meets), a choice in one of the two axis selectors
  (their options are \<^verbatim>\<open>index\<close> and the numeric columns for the x axis, the numeric columns for
  the y axis), a click on a plot type, on the fullscreen or the settings button, on the
  zoom-out button, and a relayout notification of the chart (with or without an axis range).
  The refresh buttons belong to the error view, the empty view and the dashboard; every other
  control belongs to the dashboard, and so does the chart that notifies. Whether a chart is
  drawn in a state of the dashboard is not modelled: a notification is possible in each.
\<close>

datatype event =
  RefreshClicked attempt
| XAxisSelected string
| YAxisSelected string
| PlotTypeClicked string
| FullscreenClicked
| SettingsClicked
| ZoomOutClicked
| Relayout bool

definition toggleFullscreen :: "dashboard \<Rightarrow> dashboard" where
  "toggleFullscreen s = s\<lparr>isFullscreen := \<not> isFullscreen s\<rparr>"

definition handleZoomOut :: "dashboard \<Rightarrow> dashboard" where
  "handleZoomOut s = s\<lparr>isZoomedIn := False\<rparr>"

definition onUpdate :: "bool \<Rightarrow> dashboard \<Rightarrow> dashboard" where
  "onUpdate hasRange s = (if hasRange then s\<lparr>isZoomedIn := True\<rparr> else s\<lparr>isZoomedIn := False\<rparr>)"

definition transition :: "jsrt \<Rightarrow> dashboard \<Rightarrow> event \<Rightarrow> dashboard" where
  "transition rt s e =
     (case e of
        RefreshClicked a \<Rightarrow>
          (case view rt s of Loading \<Rightarrow> s | NoNumericData \<Rightarrow> s | _ \<Rightarrow> handleRefresh s a)
      | XAxisSelected col \<Rightarrow>
          if view rt s = Ready \<and> plotType s \<noteq> ''geograph''
             \<and> col \<in> set (''index'' # numericColumns rt (csvData s))
          then s\<lparr>xAxis := col\<rparr> else s
      | YAxisSelected col \<Rightarrow>
          if view rt s = Ready \<and> plotType s \<noteq> ''geograph''
             \<and> col \<in> set (numericColumns rt (csvData s))
          then s\<lparr>yAxis := col\<rparr> else s
      | PlotTypeClicked value \<Rightarrow>
          if view rt s = Ready \<and> value \<in> set CHART_TYPES then s\<lparr>plotType := value\<rparr> else s
      | FullscreenClicked \<Rightarrow> if view rt s = Ready then toggleFullscreen s else s
      | SettingsClicked \<Rightarrow> if view rt s = Ready then s\<lparr>showSettings := \<not> showSettings s\<rparr> else s
      | ZoomOutClicked \<Rightarrow> if view rt s = Ready \<and> isZoomedIn s then handleZoomOut s else s
      | Relayout hasRange \<Rightarrow> if view rt s = Ready then onUpdate hasRange s else s)"

definition run :: "jsrt \<Rightarrow> dashboard \<Rightarrow> event list \<Rightarrow> dashboard" where
  "run rt s events = foldl (transition rt) s events"

text \<open>The states the component can reach: the mount effect, then any events.\<close>

definition mounted :: "jsrt \<Rightarrow> string \<Rightarrow> attempt \<Rightarrow> event list \<Rightarrow> dashboard" where
  "mounted rt initialPlotType a events = run rt (loadData rt (initialState initialPlotType) a) events"

text \<open>A fetch that succeeds and parses to the given records, for examples.\<close>

definition csvAttempt :: "row list \<Rightarrow> attempt" where
  "csvAttempt rows =
     \<lparr>fetched = Inr \<lparr>ok = True, status = 200, responseText = Inr []\<rparr>,
      parsed = (\<lambda>csvText. Complete rows 0)\<rparr>"

text \<open>
  A runtime for evaluating examples whose records hold integers, \<open>null\<close> and texts that are
  not numerals: no text reads as a number, and no result of their arithmetic is rounded.
\<close>

definition exampleRuntime :: jsrt where
  "exampleRuntime =
     \<lparr>numberOfString = (\<lambda>s. NaN), parseFloatOfString = (\<lambda>s. NaN), stringOfFraction = (\<lambda>r. ''NaN''),
      roundDouble = (\<lambda>r. Fin r)\<rparr>"


subsection \<open>Stated properties of the state\<close>

text \<open>
  The invariant of the specification: an axis that is set names a numeric column of the
  current dataset or the column \<^verbatim>\<open>index\<close>. An empty name is an axis that is not set.
\<close>

definition axesWithinColumns :: "jsrt \<Rightarrow> dashboard \<Rightarrow> bool" where
  "axesWithinColumns rt s =
     ((xAxis s = [] \<or> xAxis s \<in> set (''index'' # numericColumns rt (csvData s)))
      \<and> (yAxis s = [] \<or> yAxis s \<in> set (''index'' # numericColumns rt (csvData s))))"

fun isRefresh :: "event \<Rightarrow> bool" where
  "isRefresh (RefreshClicked a) = True"
| "isRefresh e = False"




section \<open>Verification\<close>

subsection \<open>Properties of the sampler\<close>

lemma strideCount_done: "n \<le> i \<Longrightarrow> 0 < step \<Longrightarrow> strideCount n i step = 0"
  by (simp add: strideCount_def)

lemma strideCount_step:
  assumes "i < n" "0 < step"
  shows "strideCount n i step = Suc (strideCount n (i + step) step)"
proof -
  define m where "m = n - i - 1"
  have l: "n - i + step - 1 = m + step" using assms by (simp add: m_def)
  have "(m + step) div step = Suc (m div step)"
    using div_add_self2 [of step m] assms(2) by simp
  then have lhs: "strideCount n i step = Suc (m div step)"
    unfolding strideCount_def l .
  have rhs: "strideCount n (i + step) step = m div step"
  proof (cases "i + step \<le> n")
    case True
    then have "n - (i + step) + step - 1 = m" using assms by (simp add: m_def)
    then show ?thesis unfolding strideCount_def by simp
  next
    case False
    then have "n - (i + step) + step - 1 = step - 1" "m < step" using assms by (simp_all add: m_def)
    moreover have "(step - 1) div step = 0" using assms(2) by (intro div_less) simp
    ultimately show ?thesis unfolding strideCount_def by simp
  qed
  show ?thesis unfolding lhs rhs ..
qed

lemma sampleLoop_closed:
  "0 < step \<Longrightarrow>
   sampleLoop data step i acc =
     Some (acc @ map (\<lambda>k. data ! (i + k * step)) [0..<strideCount (length data) i step])"
proof (induction "length data - i" arbitrary: i acc rule: less_induct)
  case less
  show ?case
  proof (cases "i < length data")
    case False
    then have "sampleLoop data step i acc = Some acc"
      by (subst sampleLoop.simps) simp
    moreover have "strideCount (length data) i step = 0"
      using False less.prems by (simp add: strideCount_done)
    ultimately show ?thesis by simp
  next
    case True
    have "length data - (i + step) < length data - i" using True less.prems by simp
    from less.hyps[OF this less.prems]
    have ih: "sampleLoop data step (i + step) (acc @ [data ! i]) =
      Some ((acc @ [data ! i]) @
        map (\<lambda>k. data ! (i + step + k * step)) [0..<strideCount (length data) (i + step) step])" .
    have unfold: "sampleLoop data step i acc = sampleLoop data step (i + step) (acc @ [data ! i])"
      using True by (subst sampleLoop.simps) simp
    have cnt: "strideCount (length data) i step = Suc (strideCount (length data) (i + step) step)"
      using True less.prems by (rule strideCount_step)
    have "map (\<lambda>k. data ! (i + k * step)) [0..<Suc m]
        = data ! i # map (\<lambda>k. data ! (i + step + k * step)) [0..<m]" for m
      by (simp add: upt_conv_Cons map_Suc_upt [symmetric] ac_simps del: upt_Suc)
    then show ?thesis unfolding unfold ih cnt by simp
  qed
qed

lemma stride_pos: "0 < (m::nat) \<Longrightarrow> m < n \<Longrightarrow> 0 < n div m"
  by (simp add: div_greater_zero_iff less_imp_le)

lemma strideCount_ge:
  assumes "0 < (m::nat)" "m < n"
  shows "m \<le> strideCount n 0 (n div m)"
proof -
  let ?s = "n div m"
  have s: "0 < ?s" using assms by (rule stride_pos)
  have "?s * m \<le> n" by (simp add: mult.commute)
  moreover have "n \<le> n + ?s - 1" using s by simp
  ultimately have "?s * m \<le> n + ?s - 1" by (rule order_trans)
  then have "(?s * m) div ?s \<le> (n + ?s - 1) div ?s" by (rule div_le_mono)
  moreover have "(?s * m) div ?s = m" using s by simp
  ultimately show ?thesis by (simp add: strideCount_def)
qed

lemma sampleData_strided:
  assumes "0 < m" "m < length D"
  shows "sampleData D m = Some (map (\<lambda>k. D ! (k * (length D div m))) [0..<m])"
proof -
  let ?s = "length D div m"
  have s: "0 < ?s" using assms by (rule stride_pos)
  have c: "m \<le> strideCount (length D) 0 ?s" using assms by (rule strideCount_ge)
  have "sampleLoop D ?s 0 [] = Some (map (\<lambda>k. D ! (k * ?s)) [0..<strideCount (length D) 0 ?s])"
    using sampleLoop_closed [OF s, of D 0 "[]"] by simp
  moreover have "take m (map (\<lambda>k. D ! (k * ?s)) [0..<strideCount (length D) 0 ?s])
      = map (\<lambda>k. D ! (k * ?s)) [0..<m]"
    using c by (simp add: take_map min_def)
  ultimately show ?thesis using assms by (simp add: sampleData_def)
qed

lemma stride_index_bound:
  assumes "0 < (m::nat)" "m < n" "k < m"
  shows "k * (n div m) < n"
proof -
  have "Suc k * (n div m) \<le> m * (n div m)" using assms(3) by (intro mult_le_mono1) simp
  also have "\<dots> \<le> n" by simp
  finally have "k * (n div m) + n div m \<le> n" by simp
  moreover have "0 < n div m" using assms(1,2) by (rule stride_pos)
  ultimately show ?thesis by linarith
qed

lemma sampleData_small: "length D \<le> m \<Longrightarrow> sampleData D m = Some D"
  by (simp add: sampleData_def)

lemma strided_indices:
  assumes "0 < (m::nat)" "m < n"
  shows "sorted_wrt (<) (map (\<lambda>k. k * (n div m)) [0..<m])"
    and "list_all (\<lambda>i. i < n) (map (\<lambda>k. k * (n div m)) [0..<m])"
    and "map (\<lambda>k. k * (n div m)) [0..<m] \<noteq> []"
    and "hd (map (\<lambda>k. k * (n div m)) [0..<m]) = 0"
proof -
  have s: "0 < n div m" using assms by (rule stride_pos)
  show "sorted_wrt (<) (map (\<lambda>k. k * (n div m)) [0..<m])"
    using s by (simp add: sorted_wrt_map sorted_wrt_iff_nth_less)
  show "list_all (\<lambda>i. i < n) (map (\<lambda>k. k * (n div m)) [0..<m])"
    using stride_index_bound [OF assms] by (simp add: list_all_iff)
  show "map (\<lambda>k. k * (n div m)) [0..<m] \<noteq> []" using assms(1) by simp
  show "hd (map (\<lambda>k. k * (n div m)) [0..<m]) = 0"
    using assms(1) by (simp add: hd_map upt_conv_Cons)
qed

text \<open>
  Claim C1. For every dataset \<open>D\<close> and every positive \<open>maxPoints\<close> the sampler returns. It
  returns \<open>D\<close> unchanged when \<open>length D \<le> maxPoints\<close>; otherwise it takes every stride-th
  record from index 0, with stride \<open>length D div maxPoints\<close>, and truncates to \<open>maxPoints\<close>. The
  output has at most \<open>maxPoints\<close> records, is \<open>D\<close> read at strictly increasing indices that
  start at 0, and sampling it again with the same bound changes nothing. 5000 records sampled
  to 2000 give stride 2 and exactly 2000 records.
\<close>

theorem sampleData_bounded_subsequence:
  assumes "0 < maxPoints"
  shows "\<exists>out. sampleData D maxPoints = Some out
    \<and> (length D \<le> maxPoints \<longrightarrow> out = D)
    \<and> (maxPoints < length D \<longrightarrow>
          out = take maxPoints (map (\<lambda>k. D ! (k * (length D div maxPoints)))
                  [0..<strideCount (length D) 0 (length D div maxPoints)]))
    \<and> length out \<le> maxPoints
    \<and> (\<exists>idx. out = map (\<lambda>i. D ! i) idx \<and> sorted_wrt (<) idx \<and> list_all (\<lambda>i. i < length D) idx
          \<and> (D \<noteq> [] \<longrightarrow> idx \<noteq> [] \<and> hd idx = 0))
    \<and> sampleData out maxPoints = Some out
    \<and> (length D = 5000 \<and> maxPoints = 2000 \<longrightarrow> length D div maxPoints = 2 \<and> length out = 2000)"
proof (cases "length D \<le> maxPoints")
  case True
  have idx: "D = map (\<lambda>i. D ! i) [0..<length D]" by (simp add: map_nth)
  have "sorted_wrt (<) [0..<length D]" by (simp add: sorted_wrt_iff_nth_less)
  moreover have "list_all (\<lambda>i. i < length D) [0..<length D]" by (simp add: list_all_iff)
  moreover have "D \<noteq> [] \<longrightarrow> [0..<length D] \<noteq> [] \<and> hd [0..<length D] = 0"
    by (simp add: upt_conv_Cons)
  ultimately have "\<exists>idx. D = map (\<lambda>i. D ! i) idx \<and> sorted_wrt (<) idx
      \<and> list_all (\<lambda>i. i < length D) idx \<and> (D \<noteq> [] \<longrightarrow> idx \<noteq> [] \<and> hd idx = 0)"
    using idx by blast
  then show ?thesis using True by (simp add: sampleData_small)
next
  case False
  then have big: "maxPoints < length D" by simp
  let ?s = "length D div maxPoints"
  let ?out = "map (\<lambda>k. D ! (k * ?s)) [0..<maxPoints]"
  have out: "sampleData D maxPoints = Some ?out"
    using assms big by (rule sampleData_strided)
  have s: "0 < ?s" using assms big by (rule stride_pos)
  have c: "maxPoints \<le> strideCount (length D) 0 ?s" using assms big by (rule strideCount_ge)
  have tk: "?out = take maxPoints (map (\<lambda>k. D ! (k * ?s)) [0..<strideCount (length D) 0 ?s])"
    using c by (simp add: take_map min_def)
  have len: "length ?out = maxPoints" by simp
  have again: "sampleData ?out maxPoints = Some ?out"
    by (rule sampleData_small) simp
  have "?out = map (\<lambda>i. D ! i) (map (\<lambda>k. k * ?s) [0..<maxPoints])" by (simp add: comp_def)
  then have ex: "\<exists>idx. ?out = map (\<lambda>i. D ! i) idx \<and> sorted_wrt (<) idx
      \<and> list_all (\<lambda>i. i < length D) idx \<and> (D \<noteq> [] \<longrightarrow> idx \<noteq> [] \<and> hd idx = 0)"
    using strided_indices [OF assms big] by blast
  have ex5000: "length D = 5000 \<and> maxPoints = 2000 \<longrightarrow> ?s = 2 \<and> length ?out = 2000"
    by simp
  show ?thesis
    apply (rule exI [of _ ?out])
    apply (intro conjI)
          apply (rule out)
         using False apply simp
        using tk apply simp
       apply simp
      apply (rule ex)
     apply (rule again)
    apply (rule ex5000)
    done
qed

theorem sampleData_bounded_subsequence_witness:
  "0 < (2::nat) \<and> sampleData [10, 11, 12, 13, 14 :: nat] 2 = Some [10, 12]
   \<and> sampleData [10, 12 :: nat] 2 = Some [10, 12]
   \<and> (\<exists>out. sampleData [10, 11, 12, 13, 14 :: nat] 2 = Some out \<and> length out \<le> 2
         \<and> sampleData out 2 = Some out)"
proof -
  have "sampleData [10, 11, 12, 13, 14 :: nat] 2 = Some [10, 12]" by code_simp
  moreover have "sampleData [10, 12 :: nat] 2 = Some [10, 12]" by code_simp
  ultimately show ?thesis
    using sampleData_bounded_subsequence [of 2 "[10, 11, 12, 13, 14 :: nat]"] by simp
qed

subsection \<open>Default axis selection\<close>

lemma sampleData_head:
  assumes "0 < m"
  shows "\<exists>rest'. sampleData (first # rest) m = Some (first # rest')"
proof (cases "length (first # rest) \<le> m")
  case True
  then show ?thesis by (simp add: sampleData_small)
next
  case False
  then have big: "m < length (first # rest)" by simp
  have "[0..<m] = 0 # [1..<m]" using assms by (simp add: upt_conv_Cons)
  then have "map (\<lambda>k. (first # rest) ! (k * (length (first # rest) div m))) [0..<m]
      = first # map (\<lambda>k. (first # rest) ! (k * (length (first # rest) div m))) [1..<m]"
    by simp
  then show ?thesis using sampleData_strided [OF assms big] by simp
qed

lemma sampleData_nil: "sampleData [] m = Some []"
  by (simp add: sampleData_def)

lemma MAX_POINTS_pos: "0 < MAX_POINTS"
  by (simp add: MAX_POINTS_def)

lemma loadData_success:
  assumes "fetchCSVData a = Inr (first # rest)"
  shows "\<exists>rest'. loadData rt s a =
      s\<lparr>csvData := first # rest', error := None, loading := False,
        xAxis := defaultXAxis (numericKeys rt first) (xAxis s),
        yAxis := defaultYAxis (numericKeys rt first) (yAxis s)\<rparr>"
proof -
  obtain rest' where "sampleData (first # rest) MAX_POINTS = Some (first # rest')"
    using sampleData_head [OF MAX_POINTS_pos, of first rest] by blast
  then have "loadData rt s a =
      s\<lparr>csvData := first # rest', error := None, loading := False,
        xAxis := defaultXAxis (numericKeys rt first) (xAxis s),
        yAxis := defaultYAxis (numericKeys rt first) (yAxis s)\<rparr>"
    using assms by (simp add: loadData_def)
  then show ?thesis by (rule exI)
qed

text \<open>
  Claim C2. When a non-empty dataset is loaded and both axes are unset, the x axis becomes the
  first numeric column if there is one; the y axis becomes the second numeric column if there
  is one, and the only numeric column if there is exactly one, which then is on both axes.
  Columns \<open>[month: text, sales: number]\<close> give \<open>sales\<close> on both axes; columns
  \<open>[a: text, b: number, c: number]\<close> give \<open>b\<close> and \<open>c\<close>.
\<close>

theorem loadData_default_axes:
  assumes "fetchCSVData a = Inr (first # rest)" and "xAxis s = []" and "yAxis s = []"
  shows "csvData (loadData rt s a) \<noteq> []
    \<and> numericColumns rt (csvData (loadData rt s a)) = numericKeys rt first
    \<and> (numericKeys rt first \<noteq> [] \<longrightarrow> xAxis (loadData rt s a) = numericKeys rt first ! 0)
    \<and> (1 < length (numericKeys rt first) \<longrightarrow> yAxis (loadData rt s a) = numericKeys rt first ! 1)
    \<and> (length (numericKeys rt first) = 1 \<longrightarrow>
          yAxis (loadData rt s a) = numericKeys rt first ! 0
          \<and> xAxis (loadData rt s a) = yAxis (loadData rt s a))
    \<and> (first = [(''month'', Str t), (''sales'', Num n)] \<and> \<not> isNumeric rt (Str t) \<longrightarrow>
          xAxis (loadData rt s a) = ''sales'' \<and> yAxis (loadData rt s a) = ''sales'')
    \<and> (first = [(''a'', Str t), (''b'', Num n), (''c'', Num n')] \<and> \<not> isNumeric rt (Str t) \<longrightarrow>
          xAxis (loadData rt s a) = ''b'' \<and> yAxis (loadData rt s a) = ''c'')"
proof -
  obtain rest' where l: "loadData rt s a =
      s\<lparr>csvData := first # rest', error := None, loading := False,
        xAxis := defaultXAxis (numericKeys rt first) (xAxis s),
        yAxis := defaultYAxis (numericKeys rt first) (yAxis s)\<rparr>"
    using loadData_success [OF assms(1)] by blast
  have x: "xAxis (loadData rt s a) = defaultXAxis (numericKeys rt first) []"
    and y: "yAxis (loadData rt s a) = defaultYAxis (numericKeys rt first) []"
    and c: "csvData (loadData rt s a) = first # rest'"
    using assms(2,3) by (simp_all add: l)
  have k1: "numericKeys rt [(''month'', Str t), (''sales'', Num n)] = [''sales'']"
    if "\<not> isNumeric rt (Str t)" for t n
    using that by (simp add: numericKeys_def getField_def)
  have k2: "numericKeys rt [(''a'', Str t), (''b'', Num n), (''c'', Num n')] = [''b'', ''c'']"
    if "\<not> isNumeric rt (Str t)" for t n n'
    using that by (simp add: numericKeys_def getField_def)
  show ?thesis
    unfolding x y c
    by (auto simp: numericColumns_def defaultXAxis_def defaultYAxis_def k1 k2)
qed

lemma fetch_csvAttempt: "fetchCSVData (csvAttempt rows) = Inr rows"
  by (simp add: fetchCSVData_def csvAttempt_def)

theorem loadData_default_axes_witness:
  "fetchCSVData (csvAttempt [[(''month'', Str ''Jan''), (''sales'', Num (Fin 100))]])
      = Inr [[(''month'', Str ''Jan''), (''sales'', Num (Fin 100))]]
   \<and> xAxis (initialState ''line'') = [] \<and> yAxis (initialState ''line'') = []
   \<and> \<not> isNumeric exampleRuntime (Str ''Jan'')
   \<and> numericKeys exampleRuntime [(''month'', Str ''Jan''), (''sales'', Num (Fin 100))] = [''sales'']
   \<and> xAxis (loadData exampleRuntime (initialState ''line'')
        (csvAttempt [[(''month'', Str ''Jan''), (''sales'', Num (Fin 100))]])) = ''sales''
   \<and> yAxis (loadData exampleRuntime (initialState ''line'')
        (csvAttempt [[(''month'', Str ''Jan''), (''sales'', Num (Fin 100))]])) = ''sales''"
proof -
  have f: "fetchCSVData (csvAttempt [[(''month'', Str ''Jan''), (''sales'', Num (Fin 100))]])
      = Inr ([(''month'', Str ''Jan''), (''sales'', Num (Fin 100))] # [])"
    by (rule fetch_csvAttempt)
  have i: "xAxis (initialState ''line'') = []" "yAxis (initialState ''line'') = []"
    by (simp_all add: initialState_def)
  have n: "\<not> isNumeric exampleRuntime (Str ''Jan'')"
    by (simp add: exampleRuntime_def jsIsNaN_def)
  have k: "numericKeys exampleRuntime [(''month'', Str ''Jan''), (''sales'', Num (Fin 100))] = [''sales'']"
    using n by (simp add: numericKeys_def getField_def)
  show ?thesis
    using loadData_default_axes [OF f i, of exampleRuntime "''Jan''" "Fin 100"] f i n k by simp
qed

subsection \<open>The view after a fetch\<close>

lemma sampleData_MAX_cases:
  "(data = [] \<and> sampleData data MAX_POINTS = Some [])
   \<or> (\<exists>first rest rest'. data = first # rest \<and> sampleData data MAX_POINTS = Some (first # rest'))"
proof (cases data)
  case Nil
  then show ?thesis by (simp add: sampleData_nil)
next
  case (Cons first rest)
  then show ?thesis using sampleData_head [OF MAX_POINTS_pos, of first rest] by blast
qed

lemma view_error:
  "\<not> loading s \<Longrightarrow> error s = Some m \<Longrightarrow> m \<noteq> [] \<Longrightarrow> view rt s = Error m"
  by (simp add: view_def)

lemma view_data:
  "\<not> loading s \<Longrightarrow> error s = None \<Longrightarrow> view rt s = dataView rt s"
  by (simp add: view_def)

lemma loadData_failure:
  "fetchCSVData a = Inl err \<Longrightarrow>
   loadData rt s a = s\<lparr>error := Some (errorMessage err ''Failed to load CSV data''), loading := False\<rparr>"
  by (simp add: loadData_def)

lemma handleRefresh_failure:
  "fetchCSVData a = Inl err \<Longrightarrow>
   handleRefresh s a = s\<lparr>error := Some (errorMessage err ''Failed to refresh data''), loading := False\<rparr>"
  by (simp add: handleRefresh_def)

lemma fetch_not_ok:
  "fetched a = Inr resp \<Longrightarrow> \<not> ok resp \<Longrightarrow>
   fetchCSVData a = Inl (ErrorObject (''HTTP error! status: '' @ natToString (status resp)))"
  by (simp add: fetchCSVData_def)

lemma loadData_settled:
  assumes "fetchCSVData a = Inr data"
  shows "\<not> loading (loadData rt s a) \<and> error (loadData rt s a) = None
    \<and> plotType (loadData rt s a) = plotType s
    \<and> sampleData data MAX_POINTS = Some (csvData (loadData rt s a))
    \<and> (csvData (loadData rt s a) = [] \<longleftrightarrow> data = [])
    \<and> numericColumns rt (csvData (loadData rt s a)) = numericColumns rt data"
  using sampleData_MAX_cases [of data] assms
  by (auto simp: loadData_def numericColumns_def)

lemma handleRefresh_settled:
  assumes "fetchCSVData a = Inr data"
  shows "\<not> loading (handleRefresh s a) \<and> error (handleRefresh s a) = None
    \<and> plotType (handleRefresh s a) = plotType s
    \<and> xAxis (handleRefresh s a) = xAxis s \<and> yAxis (handleRefresh s a) = yAxis s
    \<and> sampleData data MAX_POINTS = Some (csvData (handleRefresh s a))
    \<and> (csvData (handleRefresh s a) = [] \<longleftrightarrow> data = [])
    \<and> numericColumns rt (csvData (handleRefresh s a)) = numericColumns rt data"
  using sampleData_MAX_cases [of data] assms
  by (auto simp: handleRefresh_def numericColumns_def)

lemma fetch_rejected: "fetched a = Inl err \<Longrightarrow> fetchCSVData a = Inl err"
  by (simp add: fetchCSVData_def)

lemma fetch_text_rejected:
  "fetched a = Inr resp \<Longrightarrow> ok resp \<Longrightarrow> responseText resp = Inl err \<Longrightarrow>
   fetchCSVData a = Inl err"
  by (simp add: fetchCSVData_def)

lemma fetch_parse_failed:
  "fetched a = Inr resp \<Longrightarrow> ok resp \<Longrightarrow> responseText resp = Inr csvText \<Longrightarrow>
   parsed a csvText = ParseFailed err \<Longrightarrow> fetchCSVData a = Inl err"
  by (simp add: fetchCSVData_def)

lemma fetch_complete:
  "fetched a = Inr resp \<Longrightarrow> ok resp \<Longrightarrow> responseText resp = Inr csvText \<Longrightarrow>
   parsed a csvText = Complete rows n \<Longrightarrow> fetchCSVData a = Inr rows"
  by (simp add: fetchCSVData_def)

lemma loadData_error_view:
  "fetchCSVData a = Inl err \<Longrightarrow> errorMessage err ''Failed to load CSV data'' \<noteq> [] \<Longrightarrow>
   view rt (loadData rt s a) = Error (errorMessage err ''Failed to load CSV data'')"
  by (simp add: loadData_failure view_error)

lemma handleRefresh_error_view:
  "fetchCSVData a = Inl err \<Longrightarrow> errorMessage err ''Failed to refresh data'' \<noteq> [] \<Longrightarrow>
   view rt (handleRefresh s a) = Error (errorMessage err ''Failed to refresh data'')"
  by (simp add: handleRefresh_failure view_error)

lemma loadData_data_view:
  assumes "fetchCSVData a = Inr rows"
  shows "view rt (loadData rt s a) =
        (if rows = [] then Empty
         else if numericColumns rt rows = [] \<and> plotType s \<noteq> ''geograph'' then NoNumericData
         else Ready)"
  using loadData_settled [OF assms, of rt s] by (simp add: view_data dataView_def)

lemma handleRefresh_data_view:
  assumes "fetchCSVData a = Inr rows"
  shows "view rt (handleRefresh s a) =
        (if rows = [] then Empty
         else if numericColumns rt rows = [] \<and> plotType s \<noteq> ''geograph'' then NoNumericData
         else Ready)"
  using handleRefresh_settled [OF assms, of s rt] by (simp add: view_data dataView_def)

text \<open>
  Claim C7 as stated fails in two ways. The row-level errors that the parser reports with its
  result are only logged: a parse that reports 3 errors and no records shows the empty view,
  not the error view. And a failure whose message is the empty text does not show the error
  view either, since the component tests the message for truthiness.
\<close>

theorem parse_errors_do_not_show_error:
  "view exampleRuntime (loadData exampleRuntime (initialState ''line'')
      \<lparr>fetched = Inr \<lparr>ok = True, status = 200, responseText = Inr ''a,b''\<rparr>,
       parsed = (\<lambda>csvText. Complete [] 3)\<rparr>) = Empty
   \<and> view exampleRuntime (loadData exampleRuntime (initialState ''line'')
      \<lparr>fetched = Inl (ErrorObject []), parsed = (\<lambda>csvText. Complete [] 0)\<rparr>) = Empty"
  by (simp add: loadData_def fetchCSVData_def sampleData_def view_def dataView_def initialState_def
      errorMessage_def)

text \<open>
  Claim C7, amended. After a fetch and parse attempt, on mount or on refresh: when the fetch
  rejects, the response is not ok, the reading of the response text rejects, or the parser
  calls its error callback, the error view is shown with the message of the failure, provided
  that message is not the empty text; a non-success status gives the message
  \<^verbatim>\<open>HTTP error! status: N\<close>. When the parser completes, whatever number of row-level errors it
  reports: no records show the empty view; otherwise no numeric column together with a plot
  type other than \<^verbatim>\<open>geograph\<close> shows the no-numeric-data view; otherwise the dashboard is
  shown. The sampled dataset of the state is empty exactly when the parsed one is, and has
  the same numeric columns.
\<close>

theorem view_after_attempt:
  "((fetched a = Inl err \<and> errorMessage err ''Failed to load CSV data'' \<noteq> [] \<longrightarrow>
      view rt (loadData rt s a) = Error (errorMessage err ''Failed to load CSV data''))
   \<and> (fetched a = Inr resp \<and> \<not> ok resp \<longrightarrow>
      view rt (loadData rt s a) = Error (''HTTP error! status: '' @ natToString (status resp)))
   \<and> (fetched a = Inr resp \<and> ok resp \<and> responseText resp = Inl err
        \<and> errorMessage err ''Failed to load CSV data'' \<noteq> [] \<longrightarrow>
      view rt (loadData rt s a) = Error (errorMessage err ''Failed to load CSV data''))
   \<and> (fetched a = Inr resp \<and> ok resp \<and> responseText resp = Inr csvText
        \<and> parsed a csvText = ParseFailed err \<and> errorMessage err ''Failed to load CSV data'' \<noteq> [] \<longrightarrow>
      view rt (loadData rt s a) = Error (errorMessage err ''Failed to load CSV data''))
   \<and> (fetched a = Inr resp \<and> ok resp \<and> responseText resp = Inr csvText
        \<and> parsed a csvText = Complete rows n \<longrightarrow>
      view rt (loadData rt s a) =
        (if rows = [] then Empty
         else if numericColumns rt rows = [] \<and> plotType s \<noteq> ''geograph'' then NoNumericData
         else Ready)
      \<and> (csvData (loadData rt s a) = [] \<longleftrightarrow> rows = [])
      \<and> numericColumns rt (csvData (loadData rt s a)) = numericColumns rt rows
      \<and> plotType (loadData rt s a) = plotType s))
   \<and> ((fetched a = Inl err \<and> errorMessage err ''Failed to refresh data'' \<noteq> [] \<longrightarrow>
      view rt (handleRefresh s a) = Error (errorMessage err ''Failed to refresh data''))
   \<and> (fetched a = Inr resp \<and> \<not> ok resp \<longrightarrow>
      view rt (handleRefresh s a) = Error (''HTTP error! status: '' @ natToString (status resp)))
   \<and> (fetched a = Inr resp \<and> ok resp \<and> responseText resp = Inl err
        \<and> errorMessage err ''Failed to refresh data'' \<noteq> [] \<longrightarrow>
      view rt (handleRefresh s a) = Error (errorMessage err ''Failed to refresh data''))
   \<and> (fetched a = Inr resp \<and> ok resp \<and> responseText resp = Inr csvText
        \<and> parsed a csvText = ParseFailed err \<and> errorMessage err ''Failed to refresh data'' \<noteq> [] \<longrightarrow>
      view rt (handleRefresh s a) = Error (errorMessage err ''Failed to refresh data''))
   \<and> (fetched a = Inr resp \<and> ok resp \<and> responseText resp = Inr csvText
        \<and> parsed a csvText = Complete rows n \<longrightarrow>
      view rt (handleRefresh s a) =
        (if rows = [] then Empty
         else if numericColumns rt rows = [] \<and> plotType s \<noteq> ''geograph'' then NoNumericData
         else Ready)
      \<and> (csvData (handleRefresh s a) = [] \<longleftrightarrow> rows = [])
      \<and> numericColumns rt (csvData (handleRefresh s a)) = numericColumns rt rows
      \<and> plotType (handleRefresh s a) = plotType s))"
proof -
  have mount: "(fetched a = Inl err \<and> errorMessage err ''Failed to load CSV data'' \<noteq> [] \<longrightarrow>
      view rt (loadData rt s a) = Error (errorMessage err ''Failed to load CSV data''))
   \<and> (fetched a = Inr resp \<and> \<not> ok resp \<longrightarrow>
      view rt (loadData rt s a) = Error (''HTTP error! status: '' @ natToString (status resp)))
   \<and> (fetched a = Inr resp \<and> ok resp \<and> responseText resp = Inl err
        \<and> errorMessage err ''Failed to load CSV data'' \<noteq> [] \<longrightarrow>
      view rt (loadData rt s a) = Error (errorMessage err ''Failed to load CSV data''))
   \<and> (fetched a = Inr resp \<and> ok resp \<and> responseText resp = Inr csvText
        \<and> parsed a csvText = ParseFailed err \<and> errorMessage err ''Failed to load CSV data'' \<noteq> [] \<longrightarrow>
      view rt (loadData rt s a) = Error (errorMessage err ''Failed to load CSV data''))
   \<and> (fetched a = Inr resp \<and> ok resp \<and> responseText resp = Inr csvText
        \<and> parsed a csvText = Complete rows n \<longrightarrow>
      view rt (loadData rt s a) =
        (if rows = [] then Empty
         else if numericColumns rt rows = [] \<and> plotType s \<noteq> ''geograph'' then NoNumericData
         else Ready)
      \<and> (csvData (loadData rt s a) = [] \<longleftrightarrow> rows = [])
      \<and> numericColumns rt (csvData (loadData rt s a)) = numericColumns rt rows
      \<and> plotType (loadData rt s a) = plotType s)"
  proof (intro conjI impI)
    assume "fetched a = Inl err \<and> errorMessage err ''Failed to load CSV data'' \<noteq> []"
    then show "view rt (loadData rt s a) = Error (errorMessage err ''Failed to load CSV data'')"
      by (simp add: fetch_rejected loadData_error_view)
  next
    assume "fetched a = Inr resp \<and> \<not> ok resp"
    then have "fetchCSVData a = Inl (ErrorObject (''HTTP error! status: '' @ natToString (status resp)))"
      by (simp add: fetch_not_ok)
    then show "view rt (loadData rt s a) = Error (''HTTP error! status: '' @ natToString (status resp))"
      using loadData_error_view [of a "ErrorObject (''HTTP error! status: '' @ natToString (status resp))"]
      by (simp add: errorMessage_def)
  next
    assume "fetched a = Inr resp \<and> ok resp \<and> responseText resp = Inl err
        \<and> errorMessage err ''Failed to load CSV data'' \<noteq> []"
    then show "view rt (loadData rt s a) = Error (errorMessage err ''Failed to load CSV data'')"
      by (simp add: fetch_text_rejected loadData_error_view)
  next
    assume "fetched a = Inr resp \<and> ok resp \<and> responseText resp = Inr csvText
        \<and> parsed a csvText = ParseFailed err \<and> errorMessage err ''Failed to load CSV data'' \<noteq> []"
    then have "fetchCSVData a = Inl err" "errorMessage err ''Failed to load CSV data'' \<noteq> []"
      using fetch_parse_failed [of a resp csvText err] by simp_all
    then show "view rt (loadData rt s a) = Error (errorMessage err ''Failed to load CSV data'')"
      by (rule loadData_error_view)
  next
    assume "fetched a = Inr resp \<and> ok resp \<and> responseText resp = Inr csvText
        \<and> parsed a csvText = Complete rows n"
    then have f: "fetchCSVData a = Inr rows"
      using fetch_complete [of a resp csvText rows n] by simp
    show "view rt (loadData rt s a) =
        (if rows = [] then Empty
         else if numericColumns rt rows = [] \<and> plotType s \<noteq> ''geograph'' then NoNumericData
         else Ready)"
      by (rule loadData_data_view [OF f])
    show "(csvData (loadData rt s a) = []) = (rows = [])"
      and "numericColumns rt (csvData (loadData rt s a)) = numericColumns rt rows"
      and "plotType (loadData rt s a) = plotType s"
      using loadData_settled [OF f, of rt s] by simp_all
  qed
  have refresh: "(fetched a = Inl err \<and> errorMessage err ''Failed to refresh data'' \<noteq> [] \<longrightarrow>
      view rt (handleRefresh s a) = Error (errorMessage err ''Failed to refresh data''))
   \<and> (fetched a = Inr resp \<and> \<not> ok resp \<longrightarrow>
      view rt (handleRefresh s a) = Error (''HTTP error! status: '' @ natToString (status resp)))
   \<and> (fetched a = Inr resp \<and> ok resp \<and> responseText resp = Inl err
        \<and> errorMessage err ''Failed to refresh data'' \<noteq> [] \<longrightarrow>
      view rt (handleRefresh s a) = Error (errorMessage err ''Failed to refresh data''))
   \<and> (fetched a = Inr resp \<and> ok resp \<and> responseText resp = Inr csvText
        \<and> parsed a csvText = ParseFailed err \<and> errorMessage err ''Failed to refresh data'' \<noteq> [] \<longrightarrow>
      view rt (handleRefresh s a) = Error (errorMessage err ''Failed to refresh data''))
   \<and> (fetched a = Inr resp \<and> ok resp \<and> responseText resp = Inr csvText
        \<and> parsed a csvText = Complete rows n \<longrightarrow>
      view rt (handleRefresh s a) =
        (if rows = [] then Empty
         else if numericColumns rt rows = [] \<and> plotType s \<noteq> ''geograph'' then NoNumericData
         else Ready)
      \<and> (csvData (handleRefresh s a) = [] \<longleftrightarrow> rows = [])
      \<and> numericColumns rt (csvData (handleRefresh s a)) = numericColumns rt rows
      \<and> plotType (handleRefresh s a) = plotType s)"
  proof (intro conjI impI)
    assume "fetched a = Inl err \<and> errorMessage err ''Failed to refresh data'' \<noteq> []"
    then show "view rt (handleRefresh s a) = Error (errorMessage err ''Failed to refresh data'')"
      by (simp add: fetch_rejected handleRefresh_error_view)
  next
    assume "fetched a = Inr resp \<and> \<not> ok resp"
    then have "fetchCSVData a = Inl (ErrorObject (''HTTP error! status: '' @ natToString (status resp)))"
      by (simp add: fetch_not_ok)
    then show "view rt (handleRefresh s a) = Error (''HTTP error! status: '' @ natToString (status resp))"
      using handleRefresh_error_view [of a "ErrorObject (''HTTP error! status: '' @ natToString (status resp))"]
      by (simp add: errorMessage_def)
  next
    assume "fetched a = Inr resp \<and> ok resp \<and> responseText resp = Inl err
        \<and> errorMessage err ''Failed to refresh data'' \<noteq> []"
    then show "view rt (handleRefresh s a) = Error (errorMessage err ''Failed to refresh data'')"
      by (simp add: fetch_text_rejected handleRefresh_error_view)
  next
    assume "fetched a = Inr resp \<and> ok resp \<and> responseText resp = Inr csvText
        \<and> parsed a csvText = ParseFailed err \<and> errorMessage err ''Failed to refresh data'' \<noteq> []"
    then have "fetchCSVData a = Inl err" "errorMessage err ''Failed to refresh data'' \<noteq> []"
      using fetch_parse_failed [of a resp csvText err] by simp_all
    then show "view rt (handleRefresh s a) = Error (errorMessage err ''Failed to refresh data'')"
      by (rule handleRefresh_error_view)
  next
    assume "fetched a = Inr resp \<and> ok resp \<and> responseText resp = Inr csvText
        \<and> parsed a csvText = Complete rows n"
    then have f: "fetchCSVData a = Inr rows"
      using fetch_complete [of a resp csvText rows n] by simp
    show "view rt (handleRefresh s a) =
        (if rows = [] then Empty
         else if numericColumns rt rows = [] \<and> plotType s \<noteq> ''geograph'' then NoNumericData
         else Ready)"
      by (rule handleRefresh_data_view [OF f])
    show "(csvData (handleRefresh s a) = []) = (rows = [])"
      and "numericColumns rt (csvData (handleRefresh s a)) = numericColumns rt rows"
      and "plotType (handleRefresh s a) = plotType s"
      using handleRefresh_settled [OF f, of s rt] by simp_all
  qed
  show ?thesis using mount refresh by (rule conjI)
qed

theorem view_after_attempt_witness:
  "view exampleRuntime (loadData exampleRuntime (initialState ''line'')
      \<lparr>fetched = Inr \<lparr>ok = False, status = 404, responseText = Inr []\<rparr>,
       parsed = (\<lambda>csvText. Complete [] 0)\<rparr>) = Error ''HTTP error! status: 404''
   \<and> view exampleRuntime (handleRefresh (initialState ''line'')
      \<lparr>fetched = Inl (ErrorObject ''Failed to fetch''), parsed = (\<lambda>csvText. Complete [] 0)\<rparr>)
       = Error ''Failed to fetch''
   \<and> view exampleRuntime (loadData exampleRuntime (initialState ''line'')
      \<lparr>fetched = Inr \<lparr>ok = True, status = 200, responseText = Inl NonError\<rparr>,
       parsed = (\<lambda>csvText. Complete [] 0)\<rparr>) = Error ''Failed to load CSV data''
   \<and> view exampleRuntime (loadData exampleRuntime (initialState ''line'')
      \<lparr>fetched = Inr \<lparr>ok = True, status = 200, responseText = Inr ''a,b''\<rparr>,
       parsed = (\<lambda>csvText. ParseFailed (ErrorObject ''aborted''))\<rparr>) = Error ''aborted''
   \<and> view exampleRuntime (loadData exampleRuntime (initialState ''line'')
      \<lparr>fetched = Inr \<lparr>ok = True, status = 200, responseText = Inr ''month''\<rparr>,
       parsed = (\<lambda>csvText. Complete [[(''month'', Str ''Jan'')]] 2)\<rparr>) = NoNumericData
   \<and> view exampleRuntime (loadData exampleRuntime (initialState ''geograph'')
      \<lparr>fetched = Inr \<lparr>ok = True, status = 200, responseText = Inr ''month''\<rparr>,
       parsed = (\<lambda>csvText. Complete [[(''month'', Str ''Jan'')]] 0)\<rparr>) = Ready
   \<and> view exampleRuntime (handleRefresh (initialState ''line'')
      \<lparr>fetched = Inr \<lparr>ok = True, status = 200, responseText = Inr ''sales''\<rparr>,
       parsed = (\<lambda>csvText. Complete [[(''sales'', Num (Fin 100))]] 0)\<rparr>) = Ready"
proof -
  let ?notFound = "\<lparr>fetched = Inr \<lparr>ok = False, status = 404, responseText = Inr []\<rparr>,
       parsed = (\<lambda>csvText. Complete [] 0)\<rparr>"
  let ?offline = "\<lparr>fetched = Inl (ErrorObject ''Failed to fetch''), parsed = (\<lambda>csvText. Complete [] 0)\<rparr>"
  let ?noText = "\<lparr>fetched = Inr \<lparr>ok = True, status = 200, responseText = Inl NonError\<rparr>,
       parsed = (\<lambda>csvText. Complete [] 0)\<rparr>"
  let ?aborted = "\<lparr>fetched = Inr \<lparr>ok = True, status = 200, responseText = Inr ''a,b''\<rparr>,
       parsed = (\<lambda>csvText. ParseFailed (ErrorObject ''aborted''))\<rparr>"
  let ?months = "\<lambda>n. \<lparr>fetched = Inr \<lparr>ok = True, status = 200, responseText = Inr ''month''\<rparr>,
       parsed = (\<lambda>csvText. Complete [[(''month'', Str ''Jan'')]] n)\<rparr>"
  let ?sales = "\<lparr>fetched = Inr \<lparr>ok = True, status = 200, responseText = Inr ''sales''\<rparr>,
       parsed = (\<lambda>csvText. Complete [[(''sales'', Num (Fin 100))]] 0)\<rparr>"
  have n: "natToString 404 = ''404''"
    by (simp add: natToString.simps digitChar_def)
  have k: "numericColumns exampleRuntime [[(''month'', Str ''Jan'')]] = []"
    by (simp add: numericColumns_def numericKeys_def getField_def exampleRuntime_def jsIsNaN_def)
  have k': "numericColumns exampleRuntime [[(''sales'', Num (Fin 100))]] = [''sales'']"
    by (simp add: numericColumns_def numericKeys_def getField_def)
  have 1: "view exampleRuntime (loadData exampleRuntime (initialState ''line'') ?notFound)
      = Error ''HTTP error! status: 404''"
    using conjunct1 [OF view_after_attempt [where a = ?notFound and rt = exampleRuntime
          and s = "initialState ''line''"
          and resp = "\<lparr>ok = False, status = 404, responseText = Inr []\<rparr>"]]
    by (simp add: n)
  have 2: "view exampleRuntime (handleRefresh (initialState ''line'') ?offline) = Error ''Failed to fetch''"
    using conjunct2 [OF view_after_attempt [where a = ?offline and rt = exampleRuntime
          and s = "initialState ''line''" and err = "ErrorObject ''Failed to fetch''"]]
    by (simp add: errorMessage_def)
  have 3: "view exampleRuntime (loadData exampleRuntime (initialState ''line'') ?noText)
      = Error ''Failed to load CSV data''"
    using conjunct1 [OF view_after_attempt [where a = ?noText and rt = exampleRuntime
          and s = "initialState ''line''" and err = NonError
          and resp = "\<lparr>ok = True, status = 200, responseText = Inl NonError\<rparr>"]]
    by (simp add: errorMessage_def)
  have 4: "view exampleRuntime (loadData exampleRuntime (initialState ''line'') ?aborted) = Error ''aborted''"
    using conjunct1 [OF view_after_attempt [where a = ?aborted and rt = exampleRuntime
          and s = "initialState ''line''" and err = "ErrorObject ''aborted''"
          and resp = "\<lparr>ok = True, status = 200, responseText = Inr ''a,b''\<rparr>"
          and csvText = "''a,b''"]]
    by (simp add: errorMessage_def)
  have 5: "view exampleRuntime (loadData exampleRuntime (initialState ''line'') (?months 2)) = NoNumericData"
    using conjunct1 [OF view_after_attempt [where a = "?months 2" and rt = exampleRuntime
          and s = "initialState ''line''"
          and resp = "\<lparr>ok = True, status = 200, responseText = Inr ''month''\<rparr>"
          and csvText = "''month''" and rows = "[[(''month'', Str ''Jan'')]]" and n = 2]]
    by (simp add: k initialState_def)
  have 6: "view exampleRuntime (loadData exampleRuntime (initialState ''geograph'') (?months 0)) = Ready"
    using conjunct1 [OF view_after_attempt [where a = "?months 0" and rt = exampleRuntime
          and s = "initialState ''geograph''"
          and resp = "\<lparr>ok = True, status = 200, responseText = Inr ''month''\<rparr>"
          and csvText = "''month''" and rows = "[[(''month'', Str ''Jan'')]]" and n = 0]]
    by (simp add: k initialState_def)
  have 7: "view exampleRuntime (handleRefresh (initialState ''line'') ?sales) = Ready"
    using conjunct2 [OF view_after_attempt [where a = ?sales and rt = exampleRuntime
          and s = "initialState ''line''"
          and resp = "\<lparr>ok = True, status = 200, responseText = Inr ''sales''\<rparr>"
          and csvText = "''sales''" and rows = "[[(''sales'', Num (Fin 100))]]" and n = 0]]
    by (simp add: k' initialState_def)
  show ?thesis using 1 2 3 4 5 6 7 by simp
qed

subsection \<open>The index column of the chart data\<close>

lemma map_of_setField: "map_of (setField k v d) = (map_of d)(k \<mapsto> v)"
  by (induction d) (auto simp: fun_eq_iff)

lemma getField_setField_same: "getField (setField k v d) k = v"
  by (simp add: getField_def map_of_setField)

lemma getField_setField_other: "k' \<noteq> k \<Longrightarrow> getField (setField k v d) k' = getField d k'"
  by (simp add: getField_def map_of_setField)

lemma setField_new: "k \<notin> fst ` set d \<Longrightarrow> setField k v d = d @ [(k, v)]"
  by (induction d) auto

lemma setField_keys: "k \<in> fst ` set d \<Longrightarrow> map fst (setField k v d) = map fst d"
  by (induction d) auto

lemma chartData_nth:
  "i < length rows \<Longrightarrow>
   chartData rows ! i = setField ''index'' (Num (Fin (real (i + 1)))) (rows ! i)"
  by (simp add: chartData_def nth_enumerate_eq)

lemma length_chartData: "length (chartData rows) = length rows"
  by (simp add: chartData_def)

text \<open>
  Claim C10 as stated fails for a record that has a column named \<^verbatim>\<open>index\<close>: the column is
  overwritten, and no field is added.
\<close>

theorem chartData_index_overwritten:
  "chartData [[(''index'', Num (Fin 10)), (''v'', Num (Fin 5))]]
     = [[(''index'', Num (Fin 1)), (''v'', Num (Fin 5))]]
   \<and> length (hd (chartData [[(''index'', Num (Fin 10)), (''v'', Num (Fin 5))]]))
     = length [(''index'', Num (Fin 10)), (''v'', Num (Fin 5))]
   \<and> getField (hd (chartData [[(''index'', Num (Fin 10)), (''v'', Num (Fin 5))]])) ''index''
     \<noteq> getField [(''index'', Num (Fin 10)), (''v'', Num (Fin 5))] ''index''"
  by (simp add: chartData_def getField_def)

text \<open>
  Claim C10, amended. The chart data has one record per sampled record. In the record at
  0-based position \<open>i\<close> the field \<^verbatim>\<open>index\<close> is \<open>i + 1\<close> and every field with another name is
  unchanged. A record without a column named \<^verbatim>\<open>index\<close> has exactly that field added, as its
  last; a record with such a column keeps its field names.
\<close>

theorem chartData_sets_index:
  "length (chartData rows) = length rows
   \<and> (\<forall>i<length rows.
        getField (chartData rows ! i) ''index'' = Num (Fin (real (i + 1)))
        \<and> (\<forall>key. key \<noteq> ''index'' \<longrightarrow>
              getField (chartData rows ! i) key = getField (rows ! i) key)
        \<and> (''index'' \<notin> fst ` set (rows ! i) \<longrightarrow>
              chartData rows ! i = rows ! i @ [(''index'', Num (Fin (real (i + 1))))])
        \<and> (''index'' \<in> fst ` set (rows ! i) \<longrightarrow>
              map fst (chartData rows ! i) = map fst (rows ! i)))"
  by (simp add: length_chartData chartData_nth getField_setField_same getField_setField_other
      setField_new setField_keys)

theorem chartData_sets_index_witness:
  "chartData [[(''a'', Num (Fin 7))], [(''a'', Null)]]
     = [[(''a'', Num (Fin 7)), (''index'', Num (Fin 1))], [(''a'', Null), (''index'', Num (Fin 2))]]
   \<and> getField (chartData [[(''a'', Num (Fin 7))], [(''a'', Null)]] ! 1) ''index'' = Num (Fin 2)
   \<and> getField (chartData [[(''a'', Num (Fin 7))], [(''a'', Null)]] ! 1) ''a'' = Null"
proof -
  have e: "chartData [[(''a'', Num (Fin 7))], [(''a'', Null)]]
     = [[(''a'', Num (Fin 7)), (''index'', Num (Fin 1))], [(''a'', Null), (''index'', Num (Fin 2))]]"
    by (simp add: chartData_def)
  have "1 < length [[(''a'', Num (Fin 7))], [(''a'', Null)]]" by simp
  with chartData_sets_index [of "[[(''a'', Num (Fin 7))], [(''a'', Null)]]"]
  have "getField (chartData [[(''a'', Num (Fin 7))], [(''a'', Null)]] ! 1) ''index'' = Num (Fin (real (1 + 1)))
      \<and> (\<forall>key. key \<noteq> ''index'' \<longrightarrow>
            getField (chartData [[(''a'', Num (Fin 7))], [(''a'', Null)]] ! 1) key
              = getField ([[(''a'', Num (Fin 7))], [(''a'', Null)]] ! 1) key)"
    by blast
  then have "getField (chartData [[(''a'', Num (Fin 7))], [(''a'', Null)]] ! 1) ''index'' = Num (Fin 2)"
    and "getField (chartData [[(''a'', Num (Fin 7))], [(''a'', Null)]] ! 1) ''a'' = Null"
    by (simp_all add: getField_def)
  with e show ?thesis by blast
qed

subsection \<open>Geographic columns\<close>

lemma isLatName_Nil: "\<not> isLatName []"
  by (simp add: isLatName_def toLowerCase_def)

lemma isLonName_Nil: "\<not> isLonName []"
  by (simp add: isLonName_def toLowerCase_def)

lemma find_isLatName_nonempty: "find isLatName cols = Some c \<Longrightarrow> c \<noteq> []"
  using isLatName_Nil by (auto simp: find_Some_iff)

lemma find_isLonName_nonempty: "find isLonName cols = Some c \<Longrightarrow> c \<noteq> []"
  using isLonName_Nil by (auto simp: find_Some_iff)

lemma orNull_find_lat: "orNull (find isLatName cols) = find isLatName cols"
  using find_isLatName_nonempty [of cols] by (cases "find isLatName cols") (simp_all add: orNull_def)

lemma orNull_find_lon: "orNull (find isLonName cols) = find isLonName cols"
  using find_isLonName_nonempty [of cols] by (cases "find isLonName cols") (simp_all add: orNull_def)

lemma find_Some_list_ex: "(\<exists>y. find P xs = Some y) = list_ex P xs"
  by (induction xs) auto

text \<open>
  Claim C8 as stated fails: for the single column \<^verbatim>\<open>lat_only\<close> the derived value has its
  latitude side set and its longitude side \<open>null\<close>.
\<close>

theorem geoColumns_one_sided:
  "lat (geoColumns [[(''lat_only'', Num (Fin 1))]]) = Some ''lat_only''
   \<and> lon (geoColumns [[(''lat_only'', Num (Fin 1))]]) = None"
  by (simp add: geoColumns_def orNull_def isLatName_def isLonName_def toLowerCase_def lowerChar_def)

text \<open>
  Claim C8, amended. Each side of \<^verbatim>\<open>geoColumns\<close> is resolved on its own: the first column of
  the first record whose name matches the latitude heuristic, and the first whose name matches
  the longitude heuristic. Geography is available, as every reader of the value tests it,
  exactly when both sides are resolved. The column list \<^verbatim>\<open>["lat_only"]\<close> does not make it
  available; \<^verbatim>\<open>["Latitude","Longitude","Temp"]\<close> gives the pair \<open>(Latitude, Longitude)\<close>.
\<close>

theorem geoColumns_sides:
  "lat (geoColumns rows) = (case rows of [] \<Rightarrow> None | first # rest \<Rightarrow> find isLatName (map fst first))
   \<and> lon (geoColumns rows) = (case rows of [] \<Rightarrow> None | first # rest \<Rightarrow> find isLonName (map fst first))
   \<and> geoAvailable (geoColumns rows)
       = (case rows of [] \<Rightarrow> False
          | first # rest \<Rightarrow> list_ex isLatName (map fst first) \<and> list_ex isLonName (map fst first))
   \<and> \<not> geoAvailable (geoColumns [[(''lat_only'', v)]])
   \<and> geoColumns [[(''Latitude'', a), (''Longitude'', b), (''Temp'', c)]]
       = \<lparr>lat = Some ''Latitude'', lon = Some ''Longitude''\<rparr>"
proof -
  have 1: "lat (geoColumns rows) = (case rows of [] \<Rightarrow> None | first # rest \<Rightarrow> find isLatName (map fst first))"
    by (cases rows) (simp_all add: geoColumns_def orNull_find_lat)
  have 2: "lon (geoColumns rows) = (case rows of [] \<Rightarrow> None | first # rest \<Rightarrow> find isLonName (map fst first))"
    by (cases rows) (simp_all add: geoColumns_def orNull_find_lon)
  have 3: "geoAvailable (geoColumns rows)
       = (case rows of [] \<Rightarrow> False
          | first # rest \<Rightarrow> list_ex isLatName (map fst first) \<and> list_ex isLonName (map fst first))"
    unfolding geoAvailable_def 1 2 by (cases rows) (simp_all add: find_Some_list_ex)
  have 4: "\<not> geoAvailable (geoColumns [[(''lat_only'', v)]])"
    by (simp add: geoAvailable_def geoColumns_def orNull_def isLatName_def isLonName_def toLowerCase_def lowerChar_def)
  have 5: "geoColumns [[(''Latitude'', a), (''Longitude'', b), (''Temp'', c)]]
       = \<lparr>lat = Some ''Latitude'', lon = Some ''Longitude''\<rparr>"
    by (simp add: geoColumns_def orNull_def isLatName_def isLonName_def toLowerCase_def lowerChar_def)
  show ?thesis using 1 2 3 4 5 by blast
qed

theorem geoColumns_sides_witness:
  "geoColumns [[(''Platform'', Null), (''Colon'', Null)]] = \<lparr>lat = Some ''Platform'', lon = Some ''Colon''\<rparr>
   \<and> geoAvailable (geoColumns [[(''Platform'', Null), (''Colon'', Null)]])
   \<and> lon (geoColumns [[(''lat_only'', Null)]]) = None"
proof -
  have a: "list_ex isLatName (map fst [(''Platform'', Null), (''Colon'', Null)])"
    by (simp add: isLatName_def toLowerCase_def lowerChar_def)
  have b: "list_ex isLonName (map fst [(''Platform'', Null), (''Colon'', Null)])"
    by (simp add: isLonName_def toLowerCase_def lowerChar_def)
  have c: "find isLonName (map fst [(''lat_only'', Null)]) = None"
    by (simp add: isLonName_def toLowerCase_def lowerChar_def)
  have d: "geoColumns [[(''Platform'', Null), (''Colon'', Null)]] = \<lparr>lat = Some ''Platform'', lon = Some ''Colon''\<rparr>"
    by (simp add: geoColumns_def orNull_def isLatName_def isLonName_def toLowerCase_def lowerChar_def)
  have "geoAvailable (geoColumns [[(''Platform'', Null), (''Colon'', Null)]])
      = (case [[(''Platform'', Null), (''Colon'', Null)]] of [] \<Rightarrow> False
          | first # rest \<Rightarrow> list_ex isLatName (map fst first) \<and> list_ex isLonName (map fst first))"
    by (rule conjunct1 [OF conjunct2 [OF conjunct2 [OF geoColumns_sides]]])
  then have "geoAvailable (geoColumns [[(''Platform'', Null), (''Colon'', Null)]])"
    using a b by simp
  moreover have "lon (geoColumns [[(''lat_only'', Null)]])
      = (case [[(''lat_only'', Null)]] of [] \<Rightarrow> None | first # rest \<Rightarrow> find isLonName (map fst first))"
    by (rule conjunct1 [OF conjunct2 [OF geoColumns_sides]])
  then have "lon (geoColumns [[(''lat_only'', Null)]]) = None"
    using c by simp
  ultimately show ?thesis using d by blast
qed

subsection \<open>The axes and the numeric columns\<close>

lemma defaultXAxis_member:
  "defaultXAxis cols [] = [] \<or> defaultXAxis cols [] \<in> set cols"
  by (cases cols) (simp_all add: defaultXAxis_def)

lemma defaultYAxis_member:
  "defaultYAxis cols [] = [] \<or> defaultYAxis cols [] \<in> set cols"
proof (cases cols)
  case Nil
  then show ?thesis by (simp add: defaultYAxis_def)
next
  case (Cons c cs)
  then show ?thesis by (cases cs) (simp_all add: defaultYAxis_def)
qed

lemma loadData_initial_axes:
  "axesWithinColumns rt (loadData rt (initialState p) a)"
proof (cases "fetchCSVData a")
  case (Inl err)
  then show ?thesis
    by (simp add: loadData_failure axesWithinColumns_def initialState_def)
next
  case (Inr data)
  show ?thesis
  proof (cases data)
    case Nil
    then show ?thesis using Inr
      by (simp add: loadData_def sampleData_nil axesWithinColumns_def initialState_def)
  next
    case (Cons first rest)
    then obtain rest' where l: "loadData rt (initialState p) a =
        (initialState p)\<lparr>csvData := first # rest', error := None, loading := False,
          xAxis := defaultXAxis (numericKeys rt first) (xAxis (initialState p)),
          yAxis := defaultYAxis (numericKeys rt first) (yAxis (initialState p))\<rparr>"
      using loadData_success [of a first rest rt "initialState p"] Inr by auto
    have i: "xAxis (initialState p) = []" "yAxis (initialState p) = []"
      by (simp_all add: initialState_def)
    show ?thesis
      using defaultXAxis_member [of "numericKeys rt first"] defaultYAxis_member [of "numericKeys rt first"]
      unfolding l i by (auto simp: axesWithinColumns_def numericColumns_def)
  qed
qed

lemma transition_keeps_axes:
  assumes "\<not> isRefresh e" and "axesWithinColumns rt s"
  shows "axesWithinColumns rt (transition rt s e)"
  using assms
  by (cases e)
     (auto simp: transition_def axesWithinColumns_def toggleFullscreen_def handleZoomOut_def
        onUpdate_def)

lemma handleRefresh_axes: "xAxis (handleRefresh s a) = xAxis s \<and> yAxis (handleRefresh s a) = yAxis s"
  by (cases "fetchCSVData a"; cases "sampleData (projr (fetchCSVData a)) MAX_POINTS")
     (simp_all add: handleRefresh_def)

lemma refresh_axes:
  "xAxis (transition rt s (RefreshClicked a)) = xAxis s
   \<and> yAxis (transition rt s (RefreshClicked a)) = yAxis s"
  by (cases "view rt s") (simp_all add: transition_def handleRefresh_axes)

lemma run_keeps_axes:
  "list_all (\<lambda>e. \<not> isRefresh e) events \<Longrightarrow> axesWithinColumns rt s \<Longrightarrow>
   axesWithinColumns rt (run rt s events)"
  unfolding run_def
  by (induction events arbitrary: s) (simp_all add: transition_keeps_axes)

text \<open>
  Claim C9 as stated fails: a refresh replaces the dataset and leaves the axes as they are.
  After columns \<open>a, b\<close> are loaded and a refresh brings the single column \<open>c\<close>, the x axis
  still is \<open>a\<close>, which is neither a numeric column of the current dataset nor \<^verbatim>\<open>index\<close>.
\<close>

theorem axes_stale_after_refresh:
  "xAxis (mounted exampleRuntime ''line'' (csvAttempt [[(''a'', Num (Fin 1)), (''b'', Num (Fin 2))]])
      [RefreshClicked (csvAttempt [[(''c'', Num (Fin 3))]])]) = ''a''
   \<and> numericColumns exampleRuntime
       (csvData (mounted exampleRuntime ''line'' (csvAttempt [[(''a'', Num (Fin 1)), (''b'', Num (Fin 2))]])
          [RefreshClicked (csvAttempt [[(''c'', Num (Fin 3))]])])) = [''c'']
   \<and> \<not> axesWithinColumns exampleRuntime
       (mounted exampleRuntime ''line'' (csvAttempt [[(''a'', Num (Fin 1)), (''b'', Num (Fin 2))]])
          [RefreshClicked (csvAttempt [[(''c'', Num (Fin 3))]])])"
proof -
  let ?s1 = "loadData exampleRuntime (initialState ''line'') (csvAttempt [[(''a'', Num (Fin 1)), (''b'', Num (Fin 2))]])"
  have s1: "?s1 = \<lparr>plotType = ''line'', csvData = [[(''a'', Num (Fin 1)), (''b'', Num (Fin 2))]],
      loading = False, error = None, xAxis = ''a'', yAxis = ''b'', isFullscreen = False,
      showSettings = False, isZoomedIn = False\<rparr>"
    by (simp add: loadData_def fetch_csvAttempt sampleData_def MAX_POINTS_def initialState_def
        numericKeys_def getField_def defaultXAxis_def defaultYAxis_def)
  have v: "view exampleRuntime ?s1 = Ready"
    unfolding s1 by (simp add: view_def dataView_def numericColumns_def numericKeys_def getField_def)
  have s2: "transition exampleRuntime ?s1 (RefreshClicked (csvAttempt [[(''c'', Num (Fin 3))]]))
    = \<lparr>plotType = ''line'', csvData = [[(''c'', Num (Fin 3))]],
      loading = False, error = None, xAxis = ''a'', yAxis = ''b'', isFullscreen = False,
      showSettings = False, isZoomedIn = False\<rparr>"
    unfolding transition_def event.case v phase.case
    unfolding s1 by (simp add: handleRefresh_def fetch_csvAttempt sampleData_def MAX_POINTS_def)
  show ?thesis
    unfolding mounted_def run_def foldl.simps s2
    by (simp add: axesWithinColumns_def numericColumns_def numericKeys_def getField_def)
qed


text \<open>
  Claim C9, amended. After mount, an axis that is set names a numeric column of the current
  dataset or \<^verbatim>\<open>index\<close>, and every transition other than a refresh keeps this, so it holds in
  every state reached without a refresh. A refresh leaves both axes untouched: it keeps the
  property when the numeric columns of the new dataset contain those of the old one.
\<close>

theorem axes_within_columns_until_refresh:
  "axesWithinColumns rt (mounted rt p a [])
   \<and> (\<not> isRefresh e \<and> axesWithinColumns rt s \<longrightarrow> axesWithinColumns rt (transition rt s e))
   \<and> (list_all (\<lambda>e. \<not> isRefresh e) events \<longrightarrow> axesWithinColumns rt (mounted rt p a events))
   \<and> xAxis (transition rt s (RefreshClicked b)) = xAxis s
   \<and> yAxis (transition rt s (RefreshClicked b)) = yAxis s
   \<and> (axesWithinColumns rt s
        \<and> set (numericColumns rt (csvData s))
            \<subseteq> set (numericColumns rt (csvData (transition rt s (RefreshClicked b))))
        \<longrightarrow> axesWithinColumns rt (transition rt s (RefreshClicked b)))"
proof -
  have 1: "axesWithinColumns rt (mounted rt p a [])"
    by (simp add: mounted_def run_def loadData_initial_axes)
  have 2: "\<not> isRefresh e \<and> axesWithinColumns rt s \<longrightarrow> axesWithinColumns rt (transition rt s e)"
    by (simp add: transition_keeps_axes)
  have 3: "list_all (\<lambda>e. \<not> isRefresh e) events \<longrightarrow> axesWithinColumns rt (mounted rt p a events)"
    by (simp add: mounted_def run_keeps_axes loadData_initial_axes)
  have 4: "xAxis (transition rt s (RefreshClicked b)) = xAxis s"
    and 5: "yAxis (transition rt s (RefreshClicked b)) = yAxis s"
    by (simp_all add: refresh_axes)
  have 6: "axesWithinColumns rt s
        \<and> set (numericColumns rt (csvData s))
            \<subseteq> set (numericColumns rt (csvData (transition rt s (RefreshClicked b))))
        \<longrightarrow> axesWithinColumns rt (transition rt s (RefreshClicked b))"
    unfolding axesWithinColumns_def 4 5 by auto
  show ?thesis using 1 2 3 4 5 6 by blast
qed

theorem axes_within_columns_until_refresh_witness:
  "list_all (\<lambda>e. \<not> isRefresh e) [XAxisSelected ''index'', PlotTypeClicked ''bar'']
   \<and> xAxis (mounted exampleRuntime ''line'' (csvAttempt [[(''a'', Num (Fin 1)), (''b'', Num (Fin 2))]])
        [XAxisSelected ''index'', PlotTypeClicked ''bar'']) = ''index''
   \<and> axesWithinColumns exampleRuntime
        (mounted exampleRuntime ''line'' (csvAttempt [[(''a'', Num (Fin 1)), (''b'', Num (Fin 2))]])
          [XAxisSelected ''index'', PlotTypeClicked ''bar''])"
proof -
  let ?a = "csvAttempt [[(''a'', Num (Fin 1)), (''b'', Num (Fin 2))]]"
  let ?s1 = "loadData exampleRuntime (initialState ''line'') ?a"
  have h: "list_all (\<lambda>e. \<not> isRefresh e) [XAxisSelected ''index'', PlotTypeClicked ''bar'']"
    by simp
  have s1: "?s1 = \<lparr>plotType = ''line'', csvData = [[(''a'', Num (Fin 1)), (''b'', Num (Fin 2))]],
      loading = False, error = None, xAxis = ''a'', yAxis = ''b'', isFullscreen = False,
      showSettings = False, isZoomedIn = False\<rparr>"
    by (simp add: loadData_def fetch_csvAttempt sampleData_def MAX_POINTS_def initialState_def
        numericKeys_def getField_def defaultXAxis_def defaultYAxis_def)
  have v: "view exampleRuntime ?s1 = Ready"
    unfolding s1 by (simp add: view_def dataView_def numericColumns_def numericKeys_def getField_def)
  have s2: "transition exampleRuntime ?s1 (XAxisSelected ''index'') = ?s1\<lparr>xAxis := ''index''\<rparr>"
    unfolding transition_def event.case v
    unfolding s1 by simp
  have x: "xAxis (transition exampleRuntime (?s1\<lparr>xAxis := ''index''\<rparr>) (PlotTypeClicked ''bar'')) = ''index''"
    by (simp add: transition_def)
  have "xAxis (mounted exampleRuntime ''line'' ?a [XAxisSelected ''index'', PlotTypeClicked ''bar'']) = ''index''"
    unfolding mounted_def run_def foldl.simps s2 by (rule x)
  moreover have "axesWithinColumns exampleRuntime
      (mounted exampleRuntime ''line'' ?a [XAxisSelected ''index'', PlotTypeClicked ''bar''])"
    using conjunct1 [OF conjunct2 [OF conjunct2 [OF axes_within_columns_until_refresh]]] h
    by blast
  ultimately show ?thesis using h by blast
qed

subsection \<open>The geograph series\<close>




lemma view_Ready_nonempty: "view rt s = Ready \<Longrightarrow> csvData s \<noteq> []"
  by (auto simp: view_def dataView_def split: if_splits option.splits)










subsection \<open>The centre and the zoom of the map\<close>





















subsection \<open>The series of the cartesian plot types\<close>

lemma render_cartesian:
  "pt \<in> set [''line'', ''bar'', ''area'', ''scatter''] \<Longrightarrow>
   fst (renderPlotlyChart rt pt cd xa ya geo) =
     [XYTrace pt (map fst (xyValid rt cd xa ya)) (map snd (xyValid rt cd xa ya))]"
  by (simp add: renderPlotlyChart_def Let_def)

lemma xyValid_finite:
  "xyValid rt cd xa ya =
     map (\<lambda>d. (getField d xa, toNumber rt (getField d ya)))
       (filter (\<lambda>d. isFinite (toNumber rt (getField d ya))) cd)"
  by (induction cd) (simp_all add: xyValid_def)

text \<open>
  Claim C4 at a record with an empty cell in the y column. \<^verbatim>\<open>Number(null)\<close> is 0, which is
  finite: the record is kept in the line series, with the y value 0.
\<close>

theorem xyValid_null_is_zero:
  "fst (renderPlotlyChart exampleRuntime ''line''
      (chartData [[(''x'', Num (Fin 1)), (''y'', Num (Fin 5))], [(''x'', Num (Fin 2)), (''y'', Null)]])
      ''x'' ''y'' (geoColumns [[(''x'', Num (Fin 1)), (''y'', Num (Fin 5))], [(''x'', Num (Fin 2)), (''y'', Null)]]))
   = [XYTrace ''line'' [Num (Fin 1), Num (Fin 2)] [Fin 5, Fin 0]]"
proof -
  have cd: "chartData [[(''x'', Num (Fin 1)), (''y'', Num (Fin 5))], [(''x'', Num (Fin 2)), (''y'', Null)]]
    = [[(''x'', Num (Fin 1)), (''y'', Num (Fin 5)), (''index'', Num (Fin 1))],
       [(''x'', Num (Fin 2)), (''y'', Null), (''index'', Num (Fin 2))]]"
    by (simp add: chartData_def)
  have xy: "xyValid exampleRuntime
      [[(''x'', Num (Fin 1)), (''y'', Num (Fin 5)), (''index'', Num (Fin 1))],
       [(''x'', Num (Fin 2)), (''y'', Null), (''index'', Num (Fin 2))]] ''x'' ''y''
    = [(Num (Fin 1), Fin 5), (Num (Fin 2), Fin 0)]"
    by (simp add: xyValid_def getField_def)
  show ?thesis
    unfolding cd by (simp add: render_cartesian xy)
qed

subsection \<open>The groups of the pie\<close>

































end
